theory Spec2Isabelle
  imports Main "HOL-Library.AList"
begin

section \<open>Values, structures and caps\<close>

text \<open>
  The audio converter (\<^verbatim>\<open>gst/audioconvert/gstaudioconvert.c\<close>) works on GStreamer
  structures: a name and a list of named fields, each holding a typed value. The
  values the converter reads and writes are integers, booleans, integer ranges,
  lists of alternatives and channel-position arrays.
\<close>

datatype GstAudioChannelPosition =
    POSITION_INVALID
  | POSITION_FRONT_MONO
  | POSITION_FRONT_LEFT
  | POSITION_FRONT_RIGHT
  | POSITION_REAR_CENTER
  | POSITION_REAR_LEFT
  | POSITION_REAR_RIGHT
  | POSITION_LFE
  | POSITION_FRONT_CENTER
  | POSITION_FRONT_LEFT_OF_CENTER
  | POSITION_FRONT_RIGHT_OF_CENTER
  | POSITION_SIDE_LEFT
  | POSITION_SIDE_RIGHT
  | POSITION_NONE

datatype GValue =
    VInt int
  | VBool bool
  | VIntRange int int
  | VList "GValue list"
  | VArray "GstAudioChannelPosition list"

record GstStructure =
  s_name :: string
  s_fields :: "(string \<times> GValue) list"

type_synonym GstCaps = "GstStructure list"

definition G_LITTLE_ENDIAN :: int where
  "G_LITTLE_ENDIAN = 1234"

definition G_BIG_ENDIAN :: int where
  "G_BIG_ENDIAN = 4321"

text \<open>The host byte order; a little-endian host is taken. No property below depends on it.\<close>

definition G_BYTE_ORDER :: int where
  "G_BYTE_ORDER = G_LITTLE_ENDIAN"

subsection \<open>The structure interface the converter calls\<close>

text \<open>
  The accessors below belong to the GStreamer core library, whose code is not part of
  the converter's sources. They are written after the field model of the
  specification (a field is absent, fixed, a range or a set) and the documented
  behaviour of each call: a typed getter succeeds only on a field of that type,
  setting a field replaces it in place or appends it, removing deletes it.
\<close>

definition gst_structure_empty_new :: "string \<Rightarrow> GstStructure" where
  "gst_structure_empty_new n = \<lparr>s_name = n, s_fields = []\<rparr>"

definition gst_structure_set_name :: "GstStructure \<Rightarrow> string \<Rightarrow> GstStructure" where
  "gst_structure_set_name s n = s\<lparr>s_name := n\<rparr>"

definition gst_structure_get_value :: "GstStructure \<Rightarrow> string \<Rightarrow> GValue option" where
  "gst_structure_get_value s f = map_of (s_fields s) f"

definition gst_structure_has_field :: "GstStructure \<Rightarrow> string \<Rightarrow> bool" where
  "gst_structure_has_field s f = (gst_structure_get_value s f \<noteq> None)"

definition gst_structure_get_int :: "GstStructure \<Rightarrow> string \<Rightarrow> int option" where
  "gst_structure_get_int s f =
     (case gst_structure_get_value s f of Some (VInt i) \<Rightarrow> Some i | _ \<Rightarrow> None)"

definition gst_structure_get_boolean :: "GstStructure \<Rightarrow> string \<Rightarrow> bool option" where
  "gst_structure_get_boolean s f =
     (case gst_structure_get_value s f of Some (VBool b) \<Rightarrow> Some b | _ \<Rightarrow> None)"

definition gst_structure_set_value :: "GstStructure \<Rightarrow> string \<Rightarrow> GValue \<Rightarrow> GstStructure" where
  "gst_structure_set_value s f v = s\<lparr>s_fields := AList.update f v (s_fields s)\<rparr>"

definition gst_structure_remove_field :: "GstStructure \<Rightarrow> string \<Rightarrow> GstStructure" where
  "gst_structure_remove_field s f = s\<lparr>s_fields := AList.delete f (s_fields s)\<rparr>"

fun gst_value_is_fixed :: "GValue \<Rightarrow> bool" where
  "gst_value_is_fixed (VInt i) = True"
| "gst_value_is_fixed (VBool b) = True"
| "gst_value_is_fixed (VIntRange lo hi) = False"
| "gst_value_is_fixed (VList vs) = False"
| "gst_value_is_fixed (VArray ps) = True"

text \<open>Caps are fixed when they hold exactly one structure and each of its fields is fixed.\<close>

definition gst_caps_is_fixed :: "GstCaps \<Rightarrow> bool" where
  "gst_caps_is_fixed caps =
     (case caps of
        [s] \<Rightarrow> list_all (\<lambda>kv. gst_value_is_fixed (snd kv)) (s_fields s)
      | _ \<Rightarrow> False)"

text \<open>A structure all of whose fields are fixed.\<close>

definition all_fixed :: "GstStructure \<Rightarrow> bool" where
  "all_fixed s \<longleftrightarrow> (\<forall>f v. gst_structure_get_value s f = Some v \<longrightarrow> gst_value_is_fixed v)"

text \<open>
  Modelled from the spec: \<^verbatim>\<open>gst_caps_merge_structure\<close> and
  \<^verbatim>\<open>gst_caps_is_subset_structure\<close> (GStreamer core) are missing from the sources. A
  structure that is a subset of one already accumulated is dropped, any other is
  appended at the end. The subset test on two structures is the parameter \<open>sub\<close>.
\<close>

definition gst_caps_is_subset_structure ::
  "(GstStructure \<Rightarrow> GstStructure \<Rightarrow> bool) \<Rightarrow> GstCaps \<Rightarrow> GstStructure \<Rightarrow> bool" where
  "gst_caps_is_subset_structure sub caps s = list_ex (sub s) caps"

definition gst_caps_merge_structure ::
  "(GstStructure \<Rightarrow> GstStructure \<Rightarrow> bool) \<Rightarrow> GstCaps \<Rightarrow> GstStructure \<Rightarrow> GstCaps" where
  "gst_caps_merge_structure sub caps s =
     (if gst_caps_is_subset_structure sub caps s then caps else caps @ [s])"

subsection \<open>Fixating one field\<close>

text \<open>
  Modelled from the spec: \<^verbatim>\<open>gst_structure_fixate_field_nearest_int\<close> (GStreamer core)
  is missing from the sources. The specification's words: the field is set to the
  value of the candidate's allowed set or range numerically nearest to the target,
  ties broken toward the lower value. A fixed field is left as it is, and so is a
  field that allows no integer at all.
\<close>

definition nearer :: "int \<Rightarrow> int \<Rightarrow> int \<Rightarrow> bool" where
  "nearer t x b \<longleftrightarrow> \<bar>t - x\<bar> < \<bar>t - b\<bar> \<or> (\<bar>t - x\<bar> = \<bar>t - b\<bar> \<and> x < b)"

fun list_nearest_int :: "int \<Rightarrow> GValue list \<Rightarrow> int option" where
  "list_nearest_int t [] = None"
| "list_nearest_int t (v # vs) =
     (case v of
        VInt x \<Rightarrow>
          (case list_nearest_int t vs of
             None \<Rightarrow> Some x
           | Some b \<Rightarrow> if nearer t x b then Some x else Some b)
      | _ \<Rightarrow> list_nearest_int t vs)"

definition gst_structure_fixate_field_nearest_int ::
  "GstStructure \<Rightarrow> string \<Rightarrow> int \<Rightarrow> GstStructure" where
  "gst_structure_fixate_field_nearest_int s f t =
     (case gst_structure_get_value s f of
        Some (VIntRange lo hi) \<Rightarrow>
          if lo \<le> hi then gst_structure_set_value s f (VInt (max lo (min hi t))) else s
      | Some (VList vs) \<Rightarrow>
          (case list_nearest_int t vs of
             Some b \<Rightarrow> gst_structure_set_value s f (VInt b)
           | None \<Rightarrow> s)
      | _ \<Rightarrow> s)"

text \<open>
  Modelled from the spec: \<^verbatim>\<open>gst_structure_fixate_field_boolean\<close> (GStreamer core) is
  missing from the sources. Signedness is fixated to the target when the candidate
  still allows a choice; a list without the target gives its first boolean.
\<close>

fun list_first_bool :: "GValue list \<Rightarrow> bool option" where
  "list_first_bool [] = None"
| "list_first_bool (v # vs) =
     (case v of VBool b \<Rightarrow> Some b | _ \<Rightarrow> list_first_bool vs)"

definition gst_structure_fixate_field_boolean ::
  "GstStructure \<Rightarrow> string \<Rightarrow> bool \<Rightarrow> GstStructure" where
  "gst_structure_fixate_field_boolean s f t =
     (case gst_structure_get_value s f of
        Some (VList vs) \<Rightarrow>
          if VBool t \<in> set vs then gst_structure_set_value s f (VBool t)
          else (case list_first_bool vs of
                  Some b \<Rightarrow> gst_structure_set_value s f (VBool b)
                | None \<Rightarrow> s)
      | _ \<Rightarrow> s)"

text \<open>
  Modelled from the spec: \<^verbatim>\<open>gst_value_intersect\<close> (GStreamer core) is missing from the
  sources; only whether an intersection exists is used. Two values intersect when
  they share a value: a list intersects what one of its members intersects, a range
  what lies inside it, fixed values only their equals.
\<close>

fun value_intersect_atom :: "GValue \<Rightarrow> GValue \<Rightarrow> bool"
  and value_intersect_atom_any :: "GValue \<Rightarrow> GValue list \<Rightarrow> bool" where
  "value_intersect_atom a (VList bs) = value_intersect_atom_any a bs"
| "value_intersect_atom (VInt i) (VInt j) = (i = j)"
| "value_intersect_atom (VInt i) (VIntRange lo hi) = (lo \<le> i \<and> i \<le> hi)"
| "value_intersect_atom (VIntRange lo hi) (VInt i) = (lo \<le> i \<and> i \<le> hi)"
| "value_intersect_atom (VIntRange lo hi) (VIntRange lo' hi') = (max lo lo' \<le> min hi hi')"
| "value_intersect_atom (VBool a) (VBool b) = (a = b)"
| "value_intersect_atom (VArray ps) (VArray qs) = (ps = qs)"
| "value_intersect_atom a b = False"
| "value_intersect_atom_any a [] = False"
| "value_intersect_atom_any a (b # bs) =
     (value_intersect_atom a b \<or> value_intersect_atom_any a bs)"

fun gst_value_intersect :: "GValue \<Rightarrow> GValue \<Rightarrow> bool"
  and gst_value_intersect_any :: "GValue list \<Rightarrow> GValue \<Rightarrow> bool" where
  "gst_value_intersect (VList as) b = gst_value_intersect_any as b"
| "gst_value_intersect a b = value_intersect_atom a b"
| "gst_value_intersect_any [] b = False"
| "gst_value_intersect_any (a # as) b =
     (gst_value_intersect a b \<or> gst_value_intersect_any as b)"

section \<open>Parsing caps into a format\<close>

record AudioConvertFmt =
  fmt_is_int :: bool
  fmt_endianness :: int
  fmt_width :: int
  fmt_rate :: int
  fmt_channels :: int
  fmt_pos :: "GstAudioChannelPosition list"
  fmt_unpositioned_layout :: bool
  fmt_sign :: bool
  fmt_depth :: int
  fmt_unit_size :: int

text \<open>
  \<^verbatim>\<open>structure_has_fixed_channel_positions\<close> (lines 514-546). The C function returns a
  boolean and writes the flag \<^verbatim>\<open>*unpositioned_layout\<close> on some paths only, so the
  model takes the flag and returns it with the result. The channel positions are
  read through \<^verbatim>\<open>gst_audio_get_channel_positions\<close>, which lives in the audio library
  outside the sources: it is the parameter \<open>gp\<close>, \<open>None\<close> standing for its NULL.
\<close>

definition structure_has_fixed_channel_positions ::
  "(GstStructure \<Rightarrow> GstAudioChannelPosition list option) \<Rightarrow> GstStructure \<Rightarrow> bool \<Rightarrow> bool \<times> bool" where
  "structure_has_fixed_channel_positions gp s unpositioned_layout =
     (case gst_structure_get_int s ''channels'' of
        None \<Rightarrow> (False, unpositioned_layout)
      | Some channels \<Rightarrow>
          let val = gst_structure_get_value s ''channel-positions'';
              no_fixed = (case val of None \<Rightarrow> True | Some v \<Rightarrow> \<not> gst_value_is_fixed v)
          in if no_fixed \<and> channels \<le> 8 then (False, unpositioned_layout)
             else if no_fixed then (True, True)
             else (case gp s of
                     Some (p # ps) \<Rightarrow> (True, p = POSITION_NONE)
                   | _ \<Rightarrow> (True, False)))"

datatype parse_error = NotFixed | NoValues | NotAllowed

text \<open>C int arithmetic: a 32-bit two's complement result, division truncating toward zero.\<close>

definition to_gint :: "int \<Rightarrow> int" where
  "to_gint k = (k + 2 ^ 31) mod 2 ^ 32 - 2 ^ 31"

definition gint_div :: "int \<Rightarrow> int \<Rightarrow> int" where
  "gint_div a b = sgn a * sgn b * (\<bar>a\<bar> div \<bar>b\<bar>)"

text \<open>
  \<^verbatim>\<open>gst_audio_convert_parse_caps\<close> (lines 288-353). Both error labels return FALSE;
  the model keeps which label was taken. The callers pass a zeroed format, so the
  integer-only fields of a float format read 0 and FALSE.
\<close>

definition gst_audio_convert_parse_caps ::
  "(GstStructure \<Rightarrow> GstAudioChannelPosition list option) \<Rightarrow> GstCaps \<Rightarrow> parse_error + AudioConvertFmt" where
  "gst_audio_convert_parse_caps gp caps =
     (if \<not> gst_caps_is_fixed caps then Inl NotFixed
      else
        let structure = hd caps;
            is_int = (s_name structure = ''audio/x-raw-int'')
        in case gst_structure_get_int structure ''channels'' of
             None \<Rightarrow> Inl NoValues
           | Some channels \<Rightarrow>
        (case gp structure of
             None \<Rightarrow> Inl NoValues
           | Some pos \<Rightarrow>
        let unpositioned = snd (structure_has_fixed_channel_positions gp structure False)
        in case gst_structure_get_int structure ''width'' of
             None \<Rightarrow> Inl NoValues
           | Some width \<Rightarrow>
        (case gst_structure_get_int structure ''rate'' of
             None \<Rightarrow> Inl NoValues
           | Some rate \<Rightarrow>
        (case (if width \<noteq> 8 then gst_structure_get_int structure ''endianness''
               else Some G_BYTE_ORDER) of
             None \<Rightarrow> Inl NoValues
           | Some endianness \<Rightarrow>
        (if is_int then
           (case gst_structure_get_boolean structure ''signed'' of
              None \<Rightarrow> Inl NoValues
            | Some sign \<Rightarrow>
           (case gst_structure_get_int structure ''depth'' of
              None \<Rightarrow> Inl NoValues
            | Some depth \<Rightarrow>
                if depth > width then Inl NotAllowed
                else Inr \<lparr>fmt_is_int = True, fmt_endianness = endianness, fmt_width = width,
                         fmt_rate = rate, fmt_channels = channels, fmt_pos = pos,
                         fmt_unpositioned_layout = unpositioned, fmt_sign = sign,
                         fmt_depth = depth,
                         fmt_unit_size = gint_div (to_gint (width * channels)) 8\<rparr>))
         else Inr \<lparr>fmt_is_int = False, fmt_endianness = endianness, fmt_width = width,
                  fmt_rate = rate, fmt_channels = channels, fmt_pos = pos,
                  fmt_unpositioned_layout = unpositioned, fmt_sign = False,
                  fmt_depth = 0,
                  fmt_unit_size = gint_div (to_gint (width * channels)) 8\<rparr>)))))"

text \<open>
  \<^verbatim>\<open>gst_audio_convert_get_unit_size\<close> (lines 356-379). The unit size, a \<^verbatim>\<open>gint\<close>,
  is stored into a 64-bit \<^verbatim>\<open>gsize\<close> (line 368), so a negative one wraps around.
\<close>

definition gst_audio_convert_get_unit_size ::
  "(GstStructure \<Rightarrow> GstAudioChannelPosition list option) \<Rightarrow> GstCaps \<Rightarrow> int option" where
  "gst_audio_convert_get_unit_size gp caps =
     (case gst_audio_convert_parse_caps gp caps of
        Inl e \<Rightarrow> None
      | Inr fmt \<Rightarrow> Some (fmt_unit_size fmt mod 2 ^ 64))"

text \<open>
  \<^verbatim>\<open>gst_audio_convert_set_caps\<close> (lines 978-1004). The element keeps its dither and
  noise-shaping settings and the conversion context. The context is prepared by the
  conversion engine, which is outside the sources: the parameter \<open>prepare\<close>.
\<close>

record 'ctx GstAudioConvert =
  this_dither :: int
  this_ns :: int
  this_ctx :: 'ctx

definition gst_audio_convert_set_caps ::
  "(GstStructure \<Rightarrow> GstAudioChannelPosition list option) \<Rightarrow>
   ('ctx \<Rightarrow> AudioConvertFmt \<Rightarrow> AudioConvertFmt \<Rightarrow> int \<Rightarrow> int \<Rightarrow> bool \<times> 'ctx) \<Rightarrow>
   'ctx GstAudioConvert \<Rightarrow> GstCaps \<Rightarrow> GstCaps \<Rightarrow> bool \<times> 'ctx GstAudioConvert" where
  "gst_audio_convert_set_caps gp prepare this incaps outcaps =
     (case gst_audio_convert_parse_caps gp incaps of
        Inl e \<Rightarrow> (False, this)
      | Inr in_ac_caps \<Rightarrow>
     (case gst_audio_convert_parse_caps gp outcaps of
        Inl e \<Rightarrow> (False, this)
      | Inr out_ac_caps \<Rightarrow>
          let (ok, ctx') = prepare (this_ctx this) in_ac_caps out_ac_caps
                             (this_dither this) (this_ns this)
          in (ok, this\<lparr>this_ctx := ctx'\<rparr>)))"

text \<open>
  The sample count of \<^verbatim>\<open>gst_audio_convert_transform\<close> (line 1098): the buffer size, a
  64-bit \<^verbatim>\<open>gsize\<close>, is divided by the unit size converted to \<^verbatim>\<open>gsize\<close>, and the
  quotient is stored in a \<^verbatim>\<open>gint\<close>. A unit size of 0 is a division by zero: \<open>None\<close>.
\<close>

definition transform_samples :: "nat \<Rightarrow> int \<Rightarrow> int option" where
  "transform_samples bufsize unit_size =
     (if unit_size mod 2 ^ 64 = 0 then None
      else Some (to_gint ((int bufsize mod 2 ^ 64) div (unit_size mod 2 ^ 64))))"

section \<open>The capability expander\<close>

text \<open>\<^verbatim>\<open>set_structure_widths\<close> (lines 382-403): the loop collects the multiples of 8.\<close>

function widths_from :: "int \<Rightarrow> int \<Rightarrow> GValue list" where
  "widths_from width mx = (if width \<le> mx then VInt width # widths_from (width + 8) mx else [])"
  by pat_completeness auto
termination
  by (relation "measure (\<lambda>(w, m). nat (m - w + 1))") auto

declare widths_from.simps [simp del]

definition set_structure_widths :: "GstStructure \<Rightarrow> int \<Rightarrow> int \<Rightarrow> GstStructure" where
  "set_structure_widths s mn mx =
     (if mn = mx then gst_structure_set_value s ''width'' (VInt mn)
      else gst_structure_set_value s ''width'' (VList (widths_from mn mx)))"

text \<open>\<^verbatim>\<open>set_structure_widths_32_and_64\<close> (lines 406-421).\<close>

definition set_structure_widths_32_and_64 :: "GstStructure \<Rightarrow> GstStructure" where
  "set_structure_widths_32_and_64 s =
     gst_structure_set_value s ''width'' (VList [VInt 32, VInt 64])"

text \<open>\<^verbatim>\<open>make_lossless_changes\<close> (lines 427-466).\<close>

definition make_lossless_changes :: "GstStructure \<Rightarrow> bool \<Rightarrow> GstStructure" where
  "make_lossless_changes s isfloat =
     (let s = gst_structure_set_value s ''endianness''
                (VList [VInt G_LITTLE_ENDIAN, VInt G_BIG_ENDIAN])
      in if isfloat then
           set_structure_widths_32_and_64
             (gst_structure_remove_field (gst_structure_remove_field s ''depth'') ''signed'')
         else gst_structure_set_value s ''signed'' (VList [VBool True, VBool False]))"

text \<open>\<^verbatim>\<open>strip_width_64\<close> (lines 468-489).\<close>

definition strip_width_64 :: "GstStructure \<Rightarrow> GstStructure" where
  "strip_width_64 s =
     (case gst_structure_get_value s ''width'' of
        Some (VList vs) \<Rightarrow>
          gst_structure_set_value s ''width'' (VList (filter (\<lambda>w. w \<noteq> VInt 64) vs))
      | _ \<Rightarrow> s)"

text \<open>
  \<^verbatim>\<open>append_with_other_format\<close> (lines 492-512): \<open>other_format\<close> is the structure
  \<^verbatim>\<open>s2\<close> it builds, which is then merged into the caps.
\<close>

definition other_format :: "GstStructure \<Rightarrow> bool \<Rightarrow> GstStructure" where
  "other_format s isfloat =
     (if isfloat then
        strip_width_64 (make_lossless_changes (gst_structure_set_name s ''audio/x-raw-int'') False)
      else make_lossless_changes (gst_structure_set_name s ''audio/x-raw-float'') True)"

definition append_with_other_format ::
  "(GstStructure \<Rightarrow> GstStructure \<Rightarrow> bool) \<Rightarrow> GstCaps \<Rightarrow> GstStructure \<Rightarrow> bool \<Rightarrow> GstCaps" where
  "append_with_other_format sub caps s isfloat =
     gst_caps_merge_structure sub caps (other_format s isfloat)"

text \<open>
  \<^verbatim>\<open>gst_audio_convert_transform_caps\<close> (lines 559-726) edits one working structure
  \<^verbatim>\<open>s\<close> and merges a copy of it into the result after each stage. The stages are
  written as functions of the input structure, each built on the one before:
  \<open>transform_tier_A\<close> is \<^verbatim>\<open>s\<close> at line 613, \<open>transform_tier_B\<close> at line 657,
  \<open>transform_tier_C\<close> is \<^verbatim>\<open>s2\<close> of lines 665-679, \<open>transform_tier_D\<close> is \<^verbatim>\<open>s\<close> at
  line 694 and \<open>transform_tier_E\<close> at line 703.
\<close>

definition fields_used :: "string list" where
  "fields_used = [''width'', ''depth'', ''rate'', ''channels'', ''endianness'', ''signed'']"

definition is_float_structure :: "GstStructure \<Rightarrow> bool" where
  "is_float_structure structure = (s_name structure = ''audio/x-raw-float'')"

text \<open>Lines 596-601: the copy of the input that keeps the used fields only.\<close>

definition copy_fields_used :: "GstStructure \<Rightarrow> GstStructure" where
  "copy_fields_used structure =
     foldl (\<lambda>s f. case gst_structure_get_value structure f of
                    Some v \<Rightarrow> gst_structure_set_value s f v
                  | None \<Rightarrow> s)
           (gst_structure_empty_new (s_name structure)) fields_used"

definition transform_tier_A :: "GstStructure \<Rightarrow> GstStructure" where
  "transform_tier_A structure =
     (let isfloat = is_float_structure structure;
          s = copy_fields_used structure;
          s = (if \<not> isfloat \<and> \<not> gst_structure_has_field s ''depth'' then
                 (case gst_structure_get_int s ''width'' of
                    Some width \<Rightarrow> gst_structure_set_value s ''depth'' (VInt width)
                  | None \<Rightarrow> s)
               else s)
      in make_lossless_changes s isfloat)"

text \<open>
  The local \<^verbatim>\<open>channels\<close> is declared outside the loop over the input structures and
  initialised to 0 once; \<^verbatim>\<open>gst_structure_get_int\<close> overwrites it only when it
  succeeds. \<open>ch0\<close> is its value when the iteration starts: 0 for the first structure.
\<close>

definition channels_local :: "int \<Rightarrow> GstStructure \<Rightarrow> int" where
  "channels_local ch0 structure =
     (case gst_structure_get_int structure ''channels'' of Some c \<Rightarrow> c | None \<Rightarrow> ch0)"

text \<open>
  Lines 633-640. The local \<^verbatim>\<open>unpositioned\<close> is read only when the check returned
  TRUE, and every such path has written it, so its initial value plays no role.
\<close>

definition allow_mixing ::
  "(GstStructure \<Rightarrow> GstAudioChannelPosition list option) \<Rightarrow> GstStructure \<Rightarrow> bool" where
  "allow_mixing gp structure =
     (case gst_structure_get_int structure ''channels'' of
        None \<Rightarrow> True
      | Some c \<Rightarrow>
          (case structure_has_fixed_channel_positions gp structure False of
             (True, unpositioned) \<Rightarrow> (unpositioned = False)
           | (False, unpositioned) \<Rightarrow> True))"

text \<open>Lines 643-646 and 689-692: the channel count and the layout of the input are pinned.\<close>

definition pin_channels :: "GstStructure \<Rightarrow> int \<Rightarrow> GstStructure \<Rightarrow> GstStructure" where
  "pin_channels structure channels s =
     (let s = gst_structure_set_value s ''channels'' (VInt channels)
      in case gst_structure_get_value structure ''channel-positions'' of
           Some v \<Rightarrow> gst_structure_set_value s ''channel-positions'' v
         | None \<Rightarrow> s)"

definition transform_tier_B ::
  "(GstStructure \<Rightarrow> GstAudioChannelPosition list option) \<Rightarrow> int \<Rightarrow> GstStructure \<Rightarrow> GstStructure" where
  "transform_tier_B gp ch0 structure =
     (let isfloat = is_float_structure structure;
          s = transform_tier_A structure;
          s = (if \<not> isfloat then
                 let s = (case gst_structure_get_int structure ''width'' of
                            Some width \<Rightarrow> set_structure_widths s width 32
                          | None \<Rightarrow> s)
                 in (case gst_structure_get_int structure ''depth'' of
                       Some depth \<Rightarrow>
                         if depth = 32 then gst_structure_set_value s ''depth'' (VInt 32)
                         else gst_structure_set_value s ''depth'' (VIntRange depth 32)
                     | None \<Rightarrow> s)
               else s);
          channels = channels_local ch0 structure
      in if \<not> allow_mixing gp structure then pin_channels structure channels s
         else gst_structure_remove_field
                (if channels = 0 then gst_structure_set_value s ''channels'' (VIntRange 1 11)
                 else if channels = 11 then gst_structure_set_value s ''channels'' (VInt 11)
                 else gst_structure_set_value s ''channels'' (VIntRange channels 11))
                ''channel-positions'')"

definition transform_tier_C ::
  "(GstStructure \<Rightarrow> GstAudioChannelPosition list option) \<Rightarrow> int \<Rightarrow> GstStructure \<Rightarrow> GstStructure" where
  "transform_tier_C gp ch0 structure =
     (let s2 = transform_tier_B gp ch0 structure
      in if is_float_structure structure then set_structure_widths_32_and_64 s2
         else gst_structure_set_value (set_structure_widths s2 16 32) ''depth'' (VIntRange 16 32))"

definition transform_tier_D ::
  "(GstStructure \<Rightarrow> GstAudioChannelPosition list option) \<Rightarrow> int \<Rightarrow> GstStructure \<Rightarrow> GstStructure" where
  "transform_tier_D gp ch0 structure =
     (let s = transform_tier_B gp ch0 structure
      in if allow_mixing gp structure then
           gst_structure_remove_field
             (gst_structure_set_value s ''channels'' (VIntRange 1 11)) ''channel-positions''
         else pin_channels structure (channels_local ch0 structure) s)"

definition transform_tier_E ::
  "(GstStructure \<Rightarrow> GstAudioChannelPosition list option) \<Rightarrow> int \<Rightarrow> GstStructure \<Rightarrow> GstStructure" where
  "transform_tier_E gp ch0 structure =
     gst_structure_set_value
       (set_structure_widths (transform_tier_D gp ch0 structure) 8 32) ''depth'' (VIntRange 1 32)"

text \<open>One iteration of the loop body (lines 590-709): the result caps and \<^verbatim>\<open>channels\<close> after it.\<close>

definition transform_structure ::
  "(GstStructure \<Rightarrow> GstAudioChannelPosition list option) \<Rightarrow>
   (GstStructure \<Rightarrow> GstStructure \<Rightarrow> bool) \<Rightarrow> int \<Rightarrow> GstCaps \<Rightarrow> GstStructure \<Rightarrow> GstCaps \<times> int" where
  "transform_structure gp sub ch0 ret structure =
     (let isfloat = is_float_structure structure;
          s = transform_tier_A structure;
          ret = gst_caps_merge_structure sub ret s;
          ret = append_with_other_format sub ret s isfloat;
          s = transform_tier_B gp ch0 structure;
          ret = gst_caps_merge_structure sub ret s;
          ret = append_with_other_format sub ret s isfloat;
          ret = (if (case gst_structure_get_int structure ''width'' of
                       None \<Rightarrow> True | Some width \<Rightarrow> width > 16) then
                   if isfloat then
                     append_with_other_format sub ret (transform_tier_C gp ch0 structure) True
                   else gst_caps_merge_structure sub ret (transform_tier_C gp ch0 structure)
                 else ret);
          s = transform_tier_D gp ch0 structure;
          ret = gst_caps_merge_structure sub ret s;
          ret = append_with_other_format sub ret s isfloat;
          s = transform_tier_E gp ch0 structure;
          ret = (if isfloat then append_with_other_format sub ret s True
                 else gst_caps_merge_structure sub ret s)
      in (ret, channels_local ch0 structure))"

text \<open>The loop over the input structures (lines 578-710); \<open>first\<close> is \<^verbatim>\<open>j == 0\<close>.\<close>

fun transform_loop ::
  "(GstStructure \<Rightarrow> GstAudioChannelPosition list option) \<Rightarrow>
   (GstStructure \<Rightarrow> GstStructure \<Rightarrow> bool) \<Rightarrow> bool \<Rightarrow> int \<Rightarrow> GstCaps \<Rightarrow> GstCaps \<Rightarrow> GstCaps" where
  "transform_loop gp sub first ch0 ret [] = ret"
| "transform_loop gp sub first ch0 ret (structure # rest) =
     (if \<not> first \<and> gst_caps_is_subset_structure sub ret structure then
        transform_loop gp sub False ch0 ret rest
      else
        (case transform_structure gp sub ch0 ret structure of
           (ret', ch') \<Rightarrow> transform_loop gp sub False ch' ret' rest))"

text \<open>
  The whole function. The filter, when given, is intersected with the result by
  \<^verbatim>\<open>gst_caps_intersect_full\<close> (GStreamer core): the parameter \<open>isect\<close>.
\<close>

definition gst_audio_convert_transform_caps ::
  "(GstStructure \<Rightarrow> GstAudioChannelPosition list option) \<Rightarrow>
   (GstStructure \<Rightarrow> GstStructure \<Rightarrow> bool) \<Rightarrow> (GstCaps \<Rightarrow> GstCaps \<Rightarrow> GstCaps) \<Rightarrow>
   GstCaps \<Rightarrow> GstCaps option \<Rightarrow> GstCaps" where
  "gst_audio_convert_transform_caps gp sub isect caps filter_caps =
     (let ret = transform_loop gp sub True 0 [] caps
      in case filter_caps of
           None \<Rightarrow> ret
         | Some f \<Rightarrow> isect f ret)"

section \<open>The fixation resolver\<close>

text \<open>
  \<^verbatim>\<open>default_positions\<close> (lines 728-789): eight rows of eight entries; the entries the
  initialiser leaves out are zero, which is the front-mono position.
\<close>

definition default_positions :: "GstAudioChannelPosition list list" where
  "default_positions =
     [[POSITION_FRONT_MONO, POSITION_FRONT_MONO, POSITION_FRONT_MONO, POSITION_FRONT_MONO,
       POSITION_FRONT_MONO, POSITION_FRONT_MONO, POSITION_FRONT_MONO, POSITION_FRONT_MONO],
      [POSITION_FRONT_LEFT, POSITION_FRONT_RIGHT, POSITION_FRONT_MONO, POSITION_FRONT_MONO,
       POSITION_FRONT_MONO, POSITION_FRONT_MONO, POSITION_FRONT_MONO, POSITION_FRONT_MONO],
      [POSITION_FRONT_LEFT, POSITION_FRONT_RIGHT, POSITION_LFE, POSITION_FRONT_MONO,
       POSITION_FRONT_MONO, POSITION_FRONT_MONO, POSITION_FRONT_MONO, POSITION_FRONT_MONO],
      [POSITION_FRONT_LEFT, POSITION_FRONT_RIGHT, POSITION_REAR_LEFT, POSITION_REAR_RIGHT,
       POSITION_FRONT_MONO, POSITION_FRONT_MONO, POSITION_FRONT_MONO, POSITION_FRONT_MONO],
      [POSITION_FRONT_LEFT, POSITION_FRONT_RIGHT, POSITION_REAR_LEFT, POSITION_REAR_RIGHT,
       POSITION_FRONT_CENTER, POSITION_FRONT_MONO, POSITION_FRONT_MONO, POSITION_FRONT_MONO],
      [POSITION_FRONT_LEFT, POSITION_FRONT_RIGHT, POSITION_REAR_LEFT, POSITION_REAR_RIGHT,
       POSITION_FRONT_CENTER, POSITION_LFE, POSITION_FRONT_MONO, POSITION_FRONT_MONO],
      [POSITION_FRONT_LEFT, POSITION_FRONT_RIGHT, POSITION_REAR_LEFT, POSITION_REAR_RIGHT,
       POSITION_FRONT_CENTER, POSITION_LFE, POSITION_REAR_CENTER, POSITION_FRONT_MONO],
      [POSITION_FRONT_LEFT, POSITION_FRONT_RIGHT, POSITION_REAR_LEFT, POSITION_REAR_RIGHT,
       POSITION_FRONT_CENTER, POSITION_LFE, POSITION_SIDE_LEFT, POSITION_SIDE_RIGHT]]"

text \<open>
  Modelled from the spec: \<^verbatim>\<open>gst_audio_set_channel_positions\<close> (the audio library) is
  missing from the sources. The structure adopts the given positions as its layout,
  one position for each of its channels.
\<close>

definition gst_audio_set_channel_positions ::
  "GstStructure \<Rightarrow> GstAudioChannelPosition list \<Rightarrow> GstStructure" where
  "gst_audio_set_channel_positions str pos =
     (case gst_structure_get_int str ''channels'' of
        None \<Rightarrow> str
      | Some channels \<Rightarrow>
          if channels > 0 then
            gst_structure_set_value str ''channel-positions'' (VArray (take (nat channels) pos))
          else str)"

text \<open>
  \<^verbatim>\<open>find_suitable_channel_layout\<close> (lines 791-813). The count is unsigned in C; a
  negative count, converted, exceeds every array size, and equals none here either.
\<close>

fun find_suitable_channel_layout :: "GValue \<Rightarrow> int \<Rightarrow> GValue option"
  and find_suitable_in_list :: "GValue list \<Rightarrow> int \<Rightarrow> GValue option" where
  "find_suitable_channel_layout (VArray ps) chans =
     (if int (length ps) = chans then Some (VArray ps) else None)"
| "find_suitable_channel_layout (VList vs) chans = find_suitable_in_list vs chans"
| "find_suitable_channel_layout (VInt i) chans = None"
| "find_suitable_channel_layout (VBool b) chans = None"
| "find_suitable_channel_layout (VIntRange lo hi) chans = None"
| "find_suitable_in_list [] chans = None"
| "find_suitable_in_list (v # vs) chans =
     (case find_suitable_channel_layout v chans of
        Some r \<Rightarrow> Some r
      | None \<Rightarrow> find_suitable_in_list vs chans)"

definition holds_array_of_size :: "GValue \<Rightarrow> int \<Rightarrow> bool" where
  "holds_array_of_size v chans =
     (case v of VArray ps \<Rightarrow> int (length ps) = chans | _ \<Rightarrow> False)"

definition holds_list :: "GValue \<Rightarrow> bool" where
  "holds_list v = (case v of VList vs \<Rightarrow> True | _ \<Rightarrow> False)"

text \<open>
  Lines 853-885 of \<^verbatim>\<open>gst_audio_convert_fixate_channels\<close>: same channel count and an
  input layout. \<open>Inl\<close> is a return with the structure as it is then; \<open>Inr\<close> falls
  through with the new value of \<^verbatim>\<open>out_layout\<close>.
\<close>

definition fixate_same_channels ::
  "GValue \<Rightarrow> GstStructure \<Rightarrow> GValue option \<Rightarrow> int \<Rightarrow> GstStructure + GValue option" where
  "fixate_same_channels in_layout outs out_layout out_chans =
     (case out_layout of
        None \<Rightarrow> Inl (gst_structure_set_value outs ''channel-positions'' in_layout)
      | Some ol \<Rightarrow>
          if holds_array_of_size ol out_chans then Inl outs
          else if gst_value_intersect in_layout ol then
            Inl (gst_structure_set_value outs ''channel-positions'' in_layout)
          else (case find_suitable_channel_layout ol out_chans of
                  Some v \<Rightarrow> Inl (gst_structure_set_value outs ''channel-positions'' v)
                | None \<Rightarrow> Inr None))"

text \<open>Lines 893-916: the candidate's own layout, else the default table.\<close>

definition fixate_other_channels ::
  "GstStructure \<Rightarrow> GValue option \<Rightarrow> int \<Rightarrow> GstStructure" where
  "fixate_other_channels outs out_layout out_chans =
     (let out_layout = (case out_layout of
                          Some ol \<Rightarrow> if holds_list ol
                                     then find_suitable_channel_layout ol out_chans
                                     else Some ol
                        | None \<Rightarrow> None)
      in case (case out_layout of
                 Some ol \<Rightarrow> if holds_array_of_size ol out_chans then Some ol else None
               | None \<Rightarrow> None) of
           Some ol \<Rightarrow> gst_structure_set_value outs ''channel-positions'' ol
         | None \<Rightarrow>
             if out_chans > 0 \<and> out_chans \<le> 8 then
               gst_audio_set_channel_positions outs (default_positions ! nat (out_chans - 1))
             else outs)"

text \<open>\<^verbatim>\<open>gst_audio_convert_fixate_channels\<close> (lines 815-917).\<close>

definition gst_audio_convert_fixate_channels :: "GstStructure \<Rightarrow> GstStructure \<Rightarrow> GstStructure" where
  "gst_audio_convert_fixate_channels ins outs =
     (case gst_structure_get_int ins ''channels'' of
        None \<Rightarrow> outs
      | Some in_chans \<Rightarrow>
          if \<not> gst_structure_has_field outs ''channels'' then
            gst_structure_remove_field outs ''channel-positions''
          else
            let outs = gst_structure_fixate_field_nearest_int outs ''channels'' in_chans
            in case gst_structure_get_int outs ''channels'' of
                 None \<Rightarrow> gst_structure_remove_field outs ''channel-positions''
               | Some out_chans \<Rightarrow>
                   let out_layout = gst_structure_get_value outs ''channel-positions'';
                       in_layout = gst_structure_get_value ins ''channel-positions''
                   in if out_layout = None \<and> out_chans \<le> 2 \<and>
                         (in_chans \<noteq> out_chans \<or> in_layout = None) then outs
                      else
                        (case (if in_chans = out_chans then in_layout else None) of
                           Some il \<Rightarrow>
                             (case fixate_same_channels il outs out_layout out_chans of
                                Inl outs' \<Rightarrow> outs'
                              | Inr out_layout' \<Rightarrow>
                                  fixate_other_channels outs out_layout' out_chans)
                         | None \<Rightarrow> fixate_other_channels outs out_layout out_chans))"

text \<open>
  \<^verbatim>\<open>gst_audio_convert_fixate_caps\<close> (lines 922-976) on the first structure of each
  caps. The local \<^verbatim>\<open>width\<close> is written only when the input has a fixed width, and
  is read when the input has no fixed depth: \<open>width0\<close> is the indeterminate value it
  holds when it was never written.
\<close>

definition fixate_structure :: "int \<Rightarrow> GstStructure \<Rightarrow> GstStructure \<Rightarrow> GstStructure" where
  "fixate_structure width0 ins outs =
     (let outs = gst_audio_convert_fixate_channels ins outs;
          outs = (case gst_structure_get_int ins ''rate'' of
                    Some rate \<Rightarrow>
                      if gst_structure_has_field outs ''rate''
                      then gst_structure_fixate_field_nearest_int outs ''rate'' rate else outs
                  | None \<Rightarrow> outs);
          outs = (case gst_structure_get_int ins ''endianness'' of
                    Some endianness \<Rightarrow>
                      if gst_structure_has_field outs ''endianness''
                      then gst_structure_fixate_field_nearest_int outs ''endianness'' endianness
                      else outs
                  | None \<Rightarrow> outs);
          outs = (case gst_structure_get_int ins ''width'' of
                    Some width \<Rightarrow>
                      if gst_structure_has_field outs ''width''
                      then gst_structure_fixate_field_nearest_int outs ''width'' width else outs
                  | None \<Rightarrow> outs);
          width = (case gst_structure_get_int ins ''width'' of
                     Some width \<Rightarrow> width | None \<Rightarrow> width0);
          outs = (case gst_structure_get_int ins ''depth'' of
                    Some depth \<Rightarrow>
                      if gst_structure_has_field outs ''depth''
                      then gst_structure_fixate_field_nearest_int outs ''depth'' depth else outs
                  | None \<Rightarrow>
                      if gst_structure_has_field outs ''depth''
                      then gst_structure_fixate_field_nearest_int outs ''depth'' width else outs)
      in case gst_structure_get_boolean ins ''signed'' of
           Some signedness \<Rightarrow>
             if gst_structure_has_field outs ''signed''
             then gst_structure_fixate_field_boolean outs ''signed'' signedness else outs
         | None \<Rightarrow> outs)"

text \<open>
  The numbered steps of \<open>fixate_structure\<close> by name, for the proofs: the step of an
  integer field (rate, byte order, width), the depth step and the signedness step.
\<close>

definition fixate_int_step :: "GstStructure \<Rightarrow> string \<Rightarrow> GstStructure \<Rightarrow> GstStructure" where
  "fixate_int_step ins f outs =
     (case gst_structure_get_int ins f of
        Some t \<Rightarrow>
          if gst_structure_has_field outs f
          then gst_structure_fixate_field_nearest_int outs f t else outs
      | None \<Rightarrow> outs)"

definition fixate_depth_step :: "int \<Rightarrow> GstStructure \<Rightarrow> GstStructure \<Rightarrow> GstStructure" where
  "fixate_depth_step width0 ins outs =
     (if gst_structure_has_field outs ''depth'' then
        gst_structure_fixate_field_nearest_int outs ''depth''
          (case gst_structure_get_int ins ''depth'' of
             Some depth \<Rightarrow> depth
           | None \<Rightarrow> (case gst_structure_get_int ins ''width'' of
                        Some width \<Rightarrow> width | None \<Rightarrow> width0))
      else outs)"

definition fixate_signed_step :: "GstStructure \<Rightarrow> GstStructure \<Rightarrow> GstStructure" where
  "fixate_signed_step ins outs =
     (case gst_structure_get_boolean ins ''signed'' of
        Some signedness \<Rightarrow>
          if gst_structure_has_field outs ''signed''
          then gst_structure_fixate_field_boolean outs ''signed'' signedness else outs
      | None \<Rightarrow> outs)"

definition gst_audio_convert_fixate_caps :: "int \<Rightarrow> GstCaps \<Rightarrow> GstCaps \<Rightarrow> GstCaps" where
  "gst_audio_convert_fixate_caps width0 caps othercaps =
     (if \<not> gst_caps_is_fixed caps then othercaps
      else (case othercaps of
              [] \<Rightarrow> []
            | outs # rest \<Rightarrow> fixate_structure width0 (hd caps) outs # rest))"

text \<open>
  What a value allows as an integer, and what it means for \<open>x\<close> to be the allowed
  integer nearest to a target \<open>t\<close>, the lower one of two equally near.
\<close>

fun allowed_ints :: "GValue \<Rightarrow> int set" where
  "allowed_ints (VInt i) = {i}"
| "allowed_ints (VIntRange lo hi) = {lo..hi}"
| "allowed_ints (VList vs) = {i. VInt i \<in> set vs}"
| "allowed_ints (VBool b) = {}"
| "allowed_ints (VArray ps) = {}"

definition nearest_in :: "int set \<Rightarrow> int \<Rightarrow> int \<Rightarrow> bool" where
  "nearest_in C t x \<longleftrightarrow>
     x \<in> C \<and> (\<forall>y\<in>C. \<bar>t - x\<bar> < \<bar>t - y\<bar> \<or> (\<bar>t - x\<bar> = \<bar>t - y\<bar> \<and> x \<le> y))"

text \<open>
  No layout can be resolved from the candidate or from the input, for the input count
  \<open>in_chans\<close> and the fixated count \<open>out_chans\<close>: a candidate without a layout
  field finds no input layout of the same count to take over; a candidate with a
  layout field holds no position array of the fixated count, and no input layout of
  the same count intersects it.
\<close>

definition layout_unresolved :: "GstStructure \<Rightarrow> GstStructure \<Rightarrow> int \<Rightarrow> int \<Rightarrow> bool" where
  "layout_unresolved ins outs in_chans out_chans =
     (case gst_structure_get_value outs ''channel-positions'' of
        None \<Rightarrow>
          in_chans \<noteq> out_chans \<or> gst_structure_get_value ins ''channel-positions'' = None
      | Some ol \<Rightarrow>
          find_suitable_channel_layout ol out_chans = None \<and>
          \<not> (in_chans = out_chans \<and>
             (case gst_structure_get_value ins ''channel-positions'' of
                Some il \<Rightarrow> gst_value_intersect il ol
              | None \<Rightarrow> False)))"

text \<open>
  Modelled from the spec: \<^verbatim>\<open>gst_audio_get_channel_positions\<close> (the audio library) is
  missing from the sources, and the functions above take it as the parameter \<open>gp\<close>.
  This instance serves the concrete examples: a layout is read from a position array
  as long as the channel count; without a layout field, up to eight channels read the
  default table.
\<close>

definition gst_audio_get_channel_positions ::
  "GstStructure \<Rightarrow> GstAudioChannelPosition list option" where
  "gst_audio_get_channel_positions str =
     (case gst_structure_get_int str ''channels'' of
        None \<Rightarrow> None
      | Some channels \<Rightarrow>
          if channels \<le> 0 then None
          else (case gst_structure_get_value str ''channel-positions'' of
                  None \<Rightarrow>
                    if channels \<le> 8
                    then Some (take (nat channels) (default_positions ! nat (channels - 1)))
                    else None
                | Some (VArray ps) \<Rightarrow> if int (length ps) = channels then Some ps else None
                | Some v \<Rightarrow> None))"


text \<open>
  What every subset test on structures obeys, whatever else it checks: a structure is a
  subset of another only if it has each field of the other and allows there no integer
  that the other does not allow.
\<close>

definition subset_test_sound :: "(GstStructure \<Rightarrow> GstStructure \<Rightarrow> bool) \<Rightarrow> bool" where
  "subset_test_sound sub \<longleftrightarrow>
     (\<forall>a b. sub a b \<longrightarrow>
        (\<forall>f v. gst_structure_get_value b f = Some v \<longrightarrow>
           (\<exists>u. gst_structure_get_value a f = Some u \<and> allowed_ints u \<subseteq> allowed_ints v)))"

section \<open>Concrete formats for the examples\<close>

definition ex_int_caps :: "int \<Rightarrow> int \<Rightarrow> int \<Rightarrow> GstCaps" where
  "ex_int_caps w d c =
     [\<lparr>s_name = ''audio/x-raw-int'',
       s_fields = [(''rate'', VInt 44100), (''channels'', VInt c), (''endianness'', VInt 1234),
                   (''width'', VInt w), (''depth'', VInt d), (''signed'', VBool True)]\<rparr>]"


definition ex_unpositioned :: "int \<Rightarrow> GstStructure" where
  "ex_unpositioned c =
     \<lparr>s_name = ''audio/x-raw-int'',
      s_fields = [(''rate'', VInt 48000), (''channels'', VInt c),
                  (''channel-positions'', VArray (replicate (nat c) POSITION_NONE)),
                  (''endianness'', VInt 1234), (''width'', VInt 32), (''depth'', VInt 24),
                  (''signed'', VBool True)]\<rparr>"


definition ex_in_no_depth :: GstCaps where
  "ex_in_no_depth =
     [\<lparr>s_name = ''audio/x-raw-int'',
       s_fields = [(''rate'', VInt 44100), (''channels'', VInt 2), (''endianness'', VInt 1234),
                   (''width'', VInt 8), (''signed'', VBool True)]\<rparr>]"

definition ex_out_ranges :: GstStructure where
  "ex_out_ranges =
     \<lparr>s_name = ''audio/x-raw-int'',
      s_fields = [(''rate'', VInt 44100), (''channels'', VInt 2),
                  (''endianness'', VList [VInt 1234, VInt 4321]),
                  (''width'', VIntRange 16 32), (''depth'', VIntRange 1 32),
                  (''signed'', VList [VBool True, VBool False])]\<rparr>"

definition ex_out_width_list :: GstStructure where
  "ex_out_width_list =
     \<lparr>s_name = ''audio/x-raw-int'',
      s_fields = [(''rate'', VInt 44100), (''channels'', VInt 2), (''endianness'', VInt 1234),
                  (''width'', VList [VInt 32, VInt 16]), (''depth'', VInt 16),
                  (''signed'', VBool True)]\<rparr>"


definition ex_any_channels :: GstStructure where
  "ex_any_channels =
     \<lparr>s_name = ''audio/x-raw-int'',
      s_fields = [(''rate'', VInt 48000), (''channels'', VIntRange 1 8),
                  (''endianness'', VInt 1234), (''width'', VInt 16), (''depth'', VInt 16),
                  (''signed'', VBool True)]\<rparr>"


section \<open>Properties of the structure interface and of parsing\<close>

lemma get_value_set_value:
  "gst_structure_get_value (gst_structure_set_value s f v) g =
     (if g = f then Some v else gst_structure_get_value s g)"
  by (simp add: gst_structure_get_value_def gst_structure_set_value_def update_conv')

lemma get_value_remove_field:
  "gst_structure_get_value (gst_structure_remove_field s f) g =
     (if g = f then None else gst_structure_get_value s g)"
  by (simp add: gst_structure_get_value_def gst_structure_remove_field_def delete_conv')

lemma parse_caps_not_allowed_iff:
  "gst_audio_convert_parse_caps gp caps = Inl NotAllowed \<Longrightarrow>
     s_name (hd caps) = ''audio/x-raw-int'' \<and>
     (\<exists>d w. gst_structure_get_int (hd caps) ''depth'' = Some d \<and>
            gst_structure_get_int (hd caps) ''width'' = Some w \<and> d > w)"
  unfolding gst_audio_convert_parse_caps_def Let_def
  by (auto split: if_splits option.splits)

lemma parse_caps_fails:
  assumes "s_name (hd caps) = ''audio/x-raw-int''"
    and "gst_structure_get_int (hd caps) ''depth'' = Some d"
    and "gst_structure_get_int (hd caps) ''width'' = Some w"
    and "d > w"
  shows "isl (gst_audio_convert_parse_caps gp caps)"
  using assms unfolding gst_audio_convert_parse_caps_def Let_def
  by (auto split: if_splits option.splits)

lemma parse_caps_Inr:
  assumes "gst_audio_convert_parse_caps gp caps = Inr fmt"
  shows "gst_structure_get_int (hd caps) ''width'' = Some (fmt_width fmt) \<and>
         gst_structure_get_int (hd caps) ''channels'' = Some (fmt_channels fmt) \<and>
         fmt_unit_size fmt = gint_div (to_gint (fmt_width fmt * fmt_channels fmt)) 8"
  using assms unfolding gst_audio_convert_parse_caps_def Let_def
  by (auto split: if_splits option.splits)

lemma to_gint_id: "0 \<le> k \<Longrightarrow> k < 2 ^ 31 \<Longrightarrow> to_gint k = k"
  by (simp add: to_gint_def)

lemma gint_div_nonneg: "0 \<le> a \<Longrightarrow> 0 < b \<Longrightarrow> gint_div a b = a div b"
  by (cases "a = 0") (simp_all add: gint_div_def)


text \<open>
  Claim C6. Parsing an integer format whose fixed depth exceeds its fixed width fails:
  the parser reports a failure, no unit size is produced, and setting the caps of the
  element returns FALSE with the element, its conversion context included, as it was,
  whether the offending caps are the input or the output. With depth at most width the
  parser never takes the depth-exceeds-width exit, and it succeeds when the caps are
  fixed and the other fields it reads are there.
\<close>

theorem parse_caps_depth_width:
  assumes "s_name (hd caps) = ''audio/x-raw-int''"
    and "gst_structure_get_int (hd caps) ''depth'' = Some d"
    and "gst_structure_get_int (hd caps) ''width'' = Some w"
  shows "(d > w \<longrightarrow>
            isl (gst_audio_convert_parse_caps gp caps) \<and>
            gst_audio_convert_get_unit_size gp caps = None \<and>
            gst_audio_convert_set_caps gp prepare this caps outcaps = (False, this) \<and>
            gst_audio_convert_set_caps gp prepare this incaps caps = (False, this)) \<and>
         (d \<le> w \<longrightarrow>
            gst_audio_convert_parse_caps gp caps \<noteq> Inl NotAllowed \<and>
            (gst_caps_is_fixed caps \<and>
             gst_structure_get_int (hd caps) ''channels'' \<noteq> None \<and>
             gp (hd caps) \<noteq> None \<and>
             gst_structure_get_int (hd caps) ''rate'' \<noteq> None \<and>
             gst_structure_get_int (hd caps) ''endianness'' \<noteq> None \<and>
             gst_structure_get_boolean (hd caps) ''signed'' \<noteq> None \<longrightarrow>
             (\<exists>fmt. gst_audio_convert_parse_caps gp caps = Inr fmt \<and>
                    fmt_depth fmt = d \<and> fmt_width fmt = w)))"
proof (intro conjI impI)
  assume gt: "d > w"
  have "isl (gst_audio_convert_parse_caps gp caps)"
    by (rule parse_caps_fails [OF assms gt])
  then obtain e where e: "gst_audio_convert_parse_caps gp caps = Inl e"
    by (auto simp: isl_def)
  show "isl (gst_audio_convert_parse_caps gp caps)"
    by (simp add: e)
  show "gst_audio_convert_get_unit_size gp caps = None"
    by (simp add: gst_audio_convert_get_unit_size_def e)
  show "gst_audio_convert_set_caps gp prepare this caps outcaps = (False, this)"
    by (simp add: gst_audio_convert_set_caps_def e)
  show "gst_audio_convert_set_caps gp prepare this incaps caps = (False, this)"
    by (simp add: gst_audio_convert_set_caps_def e split: sum.splits)
next
  assume le: "d \<le> w"
  show "gst_audio_convert_parse_caps gp caps \<noteq> Inl NotAllowed"
  proof
    assume "gst_audio_convert_parse_caps gp caps = Inl NotAllowed"
    from parse_caps_not_allowed_iff [OF this] assms le show False
      by auto
  qed
next
  assume le: "d \<le> w"
  assume rest: "gst_caps_is_fixed caps \<and>
             gst_structure_get_int (hd caps) ''channels'' \<noteq> None \<and>
             gp (hd caps) \<noteq> None \<and>
             gst_structure_get_int (hd caps) ''rate'' \<noteq> None \<and>
             gst_structure_get_int (hd caps) ''endianness'' \<noteq> None \<and>
             gst_structure_get_boolean (hd caps) ''signed'' \<noteq> None"
  then show "\<exists>fmt. gst_audio_convert_parse_caps gp caps = Inr fmt \<and>
                    fmt_depth fmt = d \<and> fmt_width fmt = w"
    using assms le unfolding gst_audio_convert_parse_caps_def Let_def
    by (auto split: option.splits)
qed

lemma ex_int_caps_get:
  "s_name (hd (ex_int_caps w d c)) = ''audio/x-raw-int''"
  "gst_structure_get_int (hd (ex_int_caps w d c)) ''depth'' = Some d"
  "gst_structure_get_int (hd (ex_int_caps w d c)) ''width'' = Some w"
  "gst_structure_get_int (hd (ex_int_caps w d c)) ''channels'' = Some c"
  "gst_structure_get_int (hd (ex_int_caps w d c)) ''rate'' = Some 44100"
  "gst_structure_get_int (hd (ex_int_caps w d c)) ''endianness'' = Some 1234"
  "gst_structure_get_boolean (hd (ex_int_caps w d c)) ''signed'' = Some True"
  "gst_structure_get_value (hd (ex_int_caps w d c)) ''channel-positions'' = None"
  "gst_caps_is_fixed (ex_int_caps w d c)"
  by (simp_all add: ex_int_caps_def gst_structure_get_int_def gst_structure_get_boolean_def
      gst_structure_get_value_def gst_caps_is_fixed_def)

lemma ex_int_caps_positions:
  "gst_audio_get_channel_positions (hd (ex_int_caps w d 2)) =
     Some [POSITION_FRONT_LEFT, POSITION_FRONT_RIGHT]"
  by (simp add: gst_audio_get_channel_positions_def ex_int_caps_get default_positions_def
      numeral_2_eq_2)

theorem parse_caps_depth_width_witness:
  "isl (gst_audio_convert_parse_caps gst_audio_get_channel_positions (ex_int_caps 16 24 2)) \<and>
   gst_audio_convert_get_unit_size gst_audio_get_channel_positions (ex_int_caps 16 24 2) = None \<and>
   gst_audio_convert_set_caps gst_audio_get_channel_positions (\<lambda>c i out d n. (True, Suc c))
     \<lparr>this_dither = 2, this_ns = 0, this_ctx = 0\<rparr> (ex_int_caps 16 24 2) (ex_int_caps 16 16 2) =
     (False, \<lparr>this_dither = 2, this_ns = 0, this_ctx = 0\<rparr>) \<and>
   (\<exists>fmt. gst_audio_convert_parse_caps gst_audio_get_channel_positions (ex_int_caps 16 16 2) = Inr fmt \<and>
          fmt_depth fmt = 16 \<and> fmt_width fmt = 16)"
  using parse_caps_depth_width [of "ex_int_caps 16 24 2" 24 16 gst_audio_get_channel_positions
      "\<lambda>c i out d n. (True, Suc c)" "\<lparr>this_dither = 2, this_ns = 0, this_ctx = 0\<rparr>"
      "ex_int_caps 16 16 2" "ex_int_caps 16 16 2"]
    parse_caps_depth_width [of "ex_int_caps 16 16 2" 16 16 gst_audio_get_channel_positions]
  by (simp add: ex_int_caps_get ex_int_caps_positions)

text \<open>
  Claim C7. For every format the parser accepts, the unit size is the product of the
  width and the channel count of the caps divided by 8, computed in C int arithmetic,
  which is the mathematical quotient whenever the product is a non-negative int. The
  sample count of a buffer is its size divided by the unit size, truncated. Width 16
  and 2 channels give a unit size of 4, and a buffer of 10 bytes gives 2 samples.
\<close>

theorem unit_size_and_samples:
  assumes "gst_audio_convert_parse_caps gp caps = Inr fmt"
  shows "gst_structure_get_int (hd caps) ''width'' = Some (fmt_width fmt) \<and>
         gst_structure_get_int (hd caps) ''channels'' = Some (fmt_channels fmt) \<and>
         fmt_unit_size fmt = gint_div (to_gint (fmt_width fmt * fmt_channels fmt)) 8 \<and>
         (0 \<le> fmt_width fmt * fmt_channels fmt \<and> fmt_width fmt * fmt_channels fmt < 2 ^ 31 \<longrightarrow>
            fmt_unit_size fmt = (fmt_width fmt * fmt_channels fmt) div 8) \<and>
         (0 < fmt_unit_size fmt \<and> fmt_unit_size fmt < 2 ^ 31 \<and> bufsize < 2 ^ 31 \<longrightarrow>
            transform_samples bufsize (fmt_unit_size fmt) =
              Some (int bufsize div fmt_unit_size fmt)) \<and>
         (fmt_width fmt = 16 \<and> fmt_channels fmt = 2 \<longrightarrow>
            fmt_unit_size fmt = 4 \<and> transform_samples 10 (fmt_unit_size fmt) = Some 2)"
proof -
  note p = parse_caps_Inr [OF assms]
  have u: "fmt_unit_size fmt = gint_div (to_gint (fmt_width fmt * fmt_channels fmt)) 8"
    using p by simp
  have a: "0 \<le> fmt_width fmt * fmt_channels fmt \<and> fmt_width fmt * fmt_channels fmt < 2 ^ 31 \<longrightarrow>
            fmt_unit_size fmt = (fmt_width fmt * fmt_channels fmt) div 8"
    by (simp add: u to_gint_id gint_div_nonneg)
  have b: "0 < fmt_unit_size fmt \<and> fmt_unit_size fmt < 2 ^ 31 \<and> bufsize < 2 ^ 31 \<longrightarrow>
            transform_samples bufsize (fmt_unit_size fmt) =
              Some (int bufsize div fmt_unit_size fmt)"
  proof
    assume h: "0 < fmt_unit_size fmt \<and> fmt_unit_size fmt < 2 ^ 31 \<and> bufsize < 2 ^ 31"
    let ?u = "fmt_unit_size fmt"
    have m1: "?u mod 2 ^ 64 = ?u" using h by simp
    have bi: "int bufsize < 2 ^ 31" using h
      by (metis of_nat_less_iff of_nat_numeral of_nat_power)
    have m2: "int bufsize mod 2 ^ 64 = int bufsize" using bi by simp
    have q0: "0 \<le> int bufsize div ?u" using h by (simp add: pos_imp_zdiv_nonneg_iff)
    have "int bufsize div ?u \<le> int bufsize div 1"
      by (rule zdiv_mono2) (use h in auto)
    then have q1: "int bufsize div ?u < 2 ^ 31" using bi by simp
    show "transform_samples bufsize ?u = Some (int bufsize div ?u)"
      using h q0 q1 unfolding transform_samples_def m1 m2 by (simp add: to_gint_id)
  qed
  have c: "fmt_width fmt = 16 \<and> fmt_channels fmt = 2 \<longrightarrow>
            fmt_unit_size fmt = 4 \<and> transform_samples 10 (fmt_unit_size fmt) = Some 2"
    by (simp add: u to_gint_def gint_div_def transform_samples_def)
  show ?thesis using p a b c by blast
qed

theorem unit_size_and_samples_witness:
  "\<exists>fmt. gst_audio_convert_parse_caps gst_audio_get_channel_positions (ex_int_caps 16 16 2) = Inr fmt \<and>
         fmt_width fmt = 16 \<and> fmt_channels fmt = 2 \<and>
         fmt_unit_size fmt = 4 \<and> transform_samples 10 (fmt_unit_size fmt) = Some 2"
proof -
  obtain fmt where
    f: "gst_audio_convert_parse_caps gst_audio_get_channel_positions (ex_int_caps 16 16 2) = Inr fmt"
    by (simp add: gst_audio_convert_parse_caps_def ex_int_caps_get ex_int_caps_positions)
  note t = unit_size_and_samples [OF f, of 10]
  have w: "fmt_width fmt = 16" and c: "fmt_channels fmt = 2"
    using t by (simp_all add: ex_int_caps_get)
  with t have "fmt_unit_size fmt = 4 \<and> transform_samples 10 (fmt_unit_size fmt) = Some 2"
    by blast
  with f w c show ?thesis by blast
qed


section \<open>Properties of the capability expander\<close>

lemma s_name_set_value [simp]: "s_name (gst_structure_set_value s f v) = s_name s"
  by (simp add: gst_structure_set_value_def)

lemma s_name_remove_field [simp]: "s_name (gst_structure_remove_field s f) = s_name s"
  by (simp add: gst_structure_remove_field_def)

lemma get_value_set_name [simp]:
  "gst_structure_get_value (gst_structure_set_name s n) g = gst_structure_get_value s g"
  by (simp add: gst_structure_get_value_def gst_structure_set_name_def)

lemma get_value_empty_new [simp]:
  "gst_structure_get_value (gst_structure_empty_new n) g = None"
  by (simp add: gst_structure_get_value_def gst_structure_empty_new_def)

lemma get_value_copy_fields_used:
  "gst_structure_get_value (copy_fields_used structure) g =
     (if g \<in> set fields_used then gst_structure_get_value structure g else None)"
  unfolding copy_fields_used_def fields_used_def
  by (simp add: get_value_set_value split: option.splits)

lemma s_name_copy_fields_used [simp]: "s_name (copy_fields_used structure) = s_name structure"
  unfolding copy_fields_used_def fields_used_def
  by (simp add: gst_structure_empty_new_def split: option.splits)

lemma get_value_set_structure_widths:
  "g \<noteq> ''width'' \<Longrightarrow>
     gst_structure_get_value (set_structure_widths s mn mx) g = gst_structure_get_value s g"
  by (simp add: set_structure_widths_def get_value_set_value)

lemma get_value_make_lossless_int:
  "gst_structure_get_value (make_lossless_changes s False) g =
     (if g = ''signed'' then Some (VList [VBool True, VBool False])
      else if g = ''endianness'' then Some (VList [VInt G_LITTLE_ENDIAN, VInt G_BIG_ENDIAN])
      else gst_structure_get_value s g)"
  by (simp add: make_lossless_changes_def Let_def get_value_set_value)

lemma get_value_make_lossless_other:
  "g \<notin> {''signed'', ''endianness'', ''depth'', ''width''} \<Longrightarrow>
     gst_structure_get_value (make_lossless_changes s isfloat) g = gst_structure_get_value s g"
  by (simp add: make_lossless_changes_def Let_def get_value_set_value get_value_remove_field
      set_structure_widths_32_and_64_def)

lemma get_value_strip_width_64:
  "g \<noteq> ''width'' \<Longrightarrow>
     gst_structure_get_value (strip_width_64 s) g = gst_structure_get_value s g"
  by (simp add: strip_width_64_def get_value_set_value split: option.splits GValue.splits)

lemma get_value_other_format:
  "g \<notin> {''signed'', ''endianness'', ''depth'', ''width''} \<Longrightarrow>
     gst_structure_get_value (other_format s isfloat) g = gst_structure_get_value s g"
  by (simp add: other_format_def get_value_strip_width_64 get_value_make_lossless_other)

lemma get_value_tier_A_int:
  assumes "\<not> is_float_structure structure"
  shows "gst_structure_get_value (transform_tier_A structure) g =
     (if g = ''signed'' then Some (VList [VBool True, VBool False])
      else if g = ''endianness'' then Some (VList [VInt G_LITTLE_ENDIAN, VInt G_BIG_ENDIAN])
      else if g = ''depth'' \<and> gst_structure_get_value structure ''depth'' = None then
        (case gst_structure_get_int structure ''width'' of
           Some w \<Rightarrow> Some (VInt w) | None \<Rightarrow> None)
      else if g \<in> set fields_used then gst_structure_get_value structure g
      else None)"
  using assms unfolding transform_tier_A_def Let_def
  by (simp add: get_value_make_lossless_int get_value_set_value get_value_copy_fields_used
      gst_structure_has_field_def gst_structure_get_int_def fields_used_def
      split: option.splits GValue.splits)

lemma get_value_tier_A_channels:
  "gst_structure_get_value (transform_tier_A structure) ''channel-positions'' = None"
  unfolding transform_tier_A_def Let_def
  by (simp add: get_value_make_lossless_other get_value_set_value get_value_copy_fields_used
      fields_used_def split: option.splits)


lemma get_value_pin_channels:
  "gst_structure_get_value (pin_channels structure c s) g =
     (if g = ''channel-positions'' then
        (case gst_structure_get_value structure ''channel-positions'' of
           Some v \<Rightarrow> Some v | None \<Rightarrow> gst_structure_get_value s ''channel-positions'')
      else if g = ''channels'' then Some (VInt c)
      else gst_structure_get_value s g)"
  by (simp add: pin_channels_def Let_def get_value_set_value split: option.splits)

lemma tier_B_pinned:
  assumes "\<not> allow_mixing gp structure"
  shows "gst_structure_get_value (transform_tier_B gp ch0 structure) ''channels'' =
           Some (VInt (channels_local ch0 structure))"
    and "gst_structure_get_value (transform_tier_B gp ch0 structure) ''channel-positions'' =
           gst_structure_get_value structure ''channel-positions''"
  using assms unfolding transform_tier_B_def Let_def
  by (simp_all add: get_value_pin_channels get_value_set_value get_value_set_structure_widths
      get_value_tier_A_channels split: option.splits)

lemma tier_B_mixing:
  assumes "allow_mixing gp structure"
  shows "gst_structure_get_value (transform_tier_B gp ch0 structure) ''channels'' =
           Some (if channels_local ch0 structure = 0 then VIntRange 1 11
                 else if channels_local ch0 structure = 11 then VInt 11
                 else VIntRange (channels_local ch0 structure) 11)"
    and "gst_structure_get_value (transform_tier_B gp ch0 structure) ''channel-positions'' = None"
  using assms unfolding transform_tier_B_def Let_def
  by (simp_all add: get_value_remove_field get_value_set_value)

lemma tier_D_pinned:
  assumes "\<not> allow_mixing gp structure"
  shows "gst_structure_get_value (transform_tier_D gp ch0 structure) ''channels'' =
           Some (VInt (channels_local ch0 structure))"
    and "gst_structure_get_value (transform_tier_D gp ch0 structure) ''channel-positions'' =
           gst_structure_get_value structure ''channel-positions''"
  using assms unfolding transform_tier_D_def Let_def
  by (simp_all add: get_value_pin_channels tier_B_pinned split: option.splits)

lemma has_fixed_positions_flag:
  "structure_has_fixed_channel_positions gp s u = (True, b) \<Longrightarrow>
     structure_has_fixed_channel_positions gp s u' = (True, b)"
  unfolding structure_has_fixed_channel_positions_def Let_def
  by (auto split: option.splits if_splits list.splits)

lemma merge_into_empty: "gst_caps_merge_structure sub [] s = [s]"
  by (simp add: gst_caps_merge_structure_def gst_caps_is_subset_structure_def)

lemma merge_keeps_hd:
  "caps \<noteq> [] \<Longrightarrow> gst_caps_merge_structure sub caps s \<noteq> [] \<and>
     hd (gst_caps_merge_structure sub caps s) = hd caps"
  by (simp add: gst_caps_merge_structure_def)

lemma append_other_keeps_hd:
  "caps \<noteq> [] \<Longrightarrow> append_with_other_format sub caps s isfloat \<noteq> [] \<and>
     hd (append_with_other_format sub caps s isfloat) = hd caps"
  by (simp add: append_with_other_format_def merge_keeps_hd)

lemma transform_structure_hd:
  "fst (transform_structure gp sub ch0 [] structure) \<noteq> [] \<and>
   hd (fst (transform_structure gp sub ch0 [] structure)) = transform_tier_A structure"
  unfolding transform_structure_def Let_def
  by (simp add: merge_into_empty merge_keeps_hd append_other_keeps_hd)

lemma transform_caps_single_hd:
  "hd (gst_audio_convert_transform_caps gp sub isect [structure] None) =
     transform_tier_A structure"
  using transform_structure_hd [of gp sub 0 "structure"]
  by (auto simp: gst_audio_convert_transform_caps_def split: prod.splits)


text \<open>
  Claim C3. For an integer input with fixed width, depth, rate and channel count, the
  first descriptor the expander emits (the lossless tier) lists both byte orders and
  both signedness values and keeps the width, depth, rate and channel count of the
  input; it keeps the integer name, and it is the head of the expander's result.
\<close>

theorem tier_A_lossless:
  assumes "s_name structure = ''audio/x-raw-int''"
    and "gst_structure_get_int structure ''width'' = Some w"
    and "gst_structure_get_int structure ''depth'' = Some d"
    and "gst_structure_get_int structure ''rate'' = Some r"
    and "gst_structure_get_int structure ''channels'' = Some c"
  shows "gst_structure_get_value (transform_tier_A structure) ''endianness'' =
           Some (VList [VInt G_LITTLE_ENDIAN, VInt G_BIG_ENDIAN]) \<and>
         gst_structure_get_value (transform_tier_A structure) ''signed'' =
           Some (VList [VBool True, VBool False]) \<and>
         gst_structure_get_value (transform_tier_A structure) ''width'' = Some (VInt w) \<and>
         gst_structure_get_value (transform_tier_A structure) ''depth'' = Some (VInt d) \<and>
         gst_structure_get_value (transform_tier_A structure) ''rate'' = Some (VInt r) \<and>
         gst_structure_get_value (transform_tier_A structure) ''channels'' = Some (VInt c) \<and>
         s_name (transform_tier_A structure) = ''audio/x-raw-int'' \<and>
         hd (gst_audio_convert_transform_caps gp sub isect [structure] None) =
           transform_tier_A structure"
proof -
  have nf: "\<not> is_float_structure structure"
    using assms(1) by (simp add: is_float_structure_def)
  have v: "gst_structure_get_value structure ''width'' = Some (VInt w)"
    "gst_structure_get_value structure ''depth'' = Some (VInt d)"
    "gst_structure_get_value structure ''rate'' = Some (VInt r)"
    "gst_structure_get_value structure ''channels'' = Some (VInt c)"
    using assms(2-5)
    by (auto simp: gst_structure_get_int_def split: option.splits GValue.splits)
  have n: "s_name (transform_tier_A structure) = ''audio/x-raw-int''"
    using assms(1) nf
    by (simp add: transform_tier_A_def Let_def make_lossless_changes_def split: option.splits)
  show ?thesis
    using v n
    by (simp add: get_value_tier_A_int [OF nf] fields_used_def transform_caps_single_hd)
qed

theorem tier_A_lossless_witness:
  "gst_structure_get_value (transform_tier_A (hd (ex_int_caps 16 16 2))) ''endianness'' =
     Some (VList [VInt G_LITTLE_ENDIAN, VInt G_BIG_ENDIAN]) \<and>
   gst_structure_get_value (transform_tier_A (hd (ex_int_caps 16 16 2))) ''signed'' =
     Some (VList [VBool True, VBool False]) \<and>
   gst_structure_get_value (transform_tier_A (hd (ex_int_caps 16 16 2))) ''width'' = Some (VInt 16) \<and>
   gst_structure_get_value (transform_tier_A (hd (ex_int_caps 16 16 2))) ''depth'' = Some (VInt 16) \<and>
   gst_structure_get_value (transform_tier_A (hd (ex_int_caps 16 16 2))) ''rate'' = Some (VInt 44100) \<and>
   gst_structure_get_value (transform_tier_A (hd (ex_int_caps 16 16 2))) ''channels'' = Some (VInt 2) \<and>
   s_name (transform_tier_A (hd (ex_int_caps 16 16 2))) = ''audio/x-raw-int'' \<and>
   hd (gst_audio_convert_transform_caps gst_audio_get_channel_positions (=) (\<lambda>f r. r)
         [hd (ex_int_caps 16 16 2)] None) = transform_tier_A (hd (ex_int_caps 16 16 2))"
  using tier_A_lossless [of "hd (ex_int_caps 16 16 2)" 16 16 44100 2
      gst_audio_get_channel_positions "(=)" "\<lambda>f r. r"]
  by (simp add: ex_int_caps_get)


lemma allow_mixing_iff:
  "allow_mixing gp structure \<longleftrightarrow>
     structure_has_fixed_channel_positions gp structure False \<noteq> (True, True)"
  unfolding allow_mixing_def structure_has_fixed_channel_positions_def Let_def
  by (auto split: option.splits if_splits list.splits)

text \<open>
  The channel count of the second tier when mixing is allowed, by the value the local
  \<^verbatim>\<open>channels\<close> holds: a fixed count of the input overwrites it, a count that is not
  fixed leaves it as the iteration found it.
\<close>

lemma tier_B_channels_cases:
  assumes "allow_mixing gp structure"
  shows "(gst_structure_get_int structure ''channels'' = None \<longrightarrow>
            gst_structure_get_value (transform_tier_B gp 0 structure) ''channels'' =
              Some (VIntRange 1 11)) \<and>
         (gst_structure_get_int structure ''channels'' = Some 0 \<longrightarrow>
            gst_structure_get_value (transform_tier_B gp ch0 structure) ''channels'' =
              Some (VIntRange 1 11)) \<and>
         (gst_structure_get_int structure ''channels'' = Some 11 \<longrightarrow>
            gst_structure_get_value (transform_tier_B gp ch0 structure) ''channels'' =
              Some (VInt 11)) \<and>
         (\<forall>c. gst_structure_get_int structure ''channels'' = Some c \<and> c \<noteq> 0 \<and> c \<noteq> 11 \<longrightarrow>
            gst_structure_get_value (transform_tier_B gp ch0 structure) ''channels'' =
              Some (VIntRange c 11)) \<and>
         (\<forall>c v. gst_structure_get_int structure ''channels'' = Some c \<and>
                gst_structure_get_value (transform_tier_B gp ch0 structure) ''channels'' = Some v \<longrightarrow>
                (\<forall>x\<in>allowed_ints v. c \<le> x)) \<and>
         gst_structure_get_value (transform_tier_B gp ch0 structure) ''channel-positions'' = None \<and>
         gst_structure_get_value (other_format (transform_tier_B gp ch0 structure) isfloat)
             ''channels'' =
           gst_structure_get_value (transform_tier_B gp ch0 structure) ''channels'' \<and>
         gst_structure_get_value (other_format (transform_tier_B gp ch0 structure) isfloat)
             ''channel-positions'' = None"
proof -
  note b = tier_B_mixing [OF assms]
  have 1: "gst_structure_get_int structure ''channels'' = None \<longrightarrow>
            gst_structure_get_value (transform_tier_B gp 0 structure) ''channels'' =
              Some (VIntRange 1 11)"
    by (simp add: b channels_local_def)
  have 2: "\<forall>c. gst_structure_get_int structure ''channels'' = Some c \<longrightarrow>
            gst_structure_get_value (transform_tier_B gp ch0 structure) ''channels'' =
              Some (if c = 0 then VIntRange 1 11 else if c = 11 then VInt 11
                    else VIntRange c 11)"
    by (auto simp: b channels_local_def)
  have 3: "\<forall>c v. gst_structure_get_int structure ''channels'' = Some c \<and>
                gst_structure_get_value (transform_tier_B gp ch0 structure) ''channels'' = Some v \<longrightarrow>
                (\<forall>x\<in>allowed_ints v. c \<le> x)"
  proof (intro allI impI ballI)
    fix c v x
    assume h: "gst_structure_get_int structure ''channels'' = Some c \<and>
               gst_structure_get_value (transform_tier_B gp ch0 structure) ''channels'' = Some v"
      and x: "x \<in> allowed_ints v"
    from 2 h have "v = (if c = 0 then VIntRange 1 11 else if c = 11 then VInt 11
                        else VIntRange c 11)"
      by simp
    with x show "c \<le> x"
      by (cases "c = 0"; cases "c = 11") simp_all
  qed
  have 4: "gst_structure_get_value (other_format (transform_tier_B gp ch0 structure) isfloat)
             ''channels'' =
           gst_structure_get_value (transform_tier_B gp ch0 structure) ''channels''"
    by (simp add: get_value_other_format)
  have 5: "gst_structure_get_value (other_format (transform_tier_B gp ch0 structure) isfloat)
             ''channel-positions'' = None"
    by (simp add: get_value_other_format b)
  show ?thesis
    using 1 2 3 4 5 b(2) by simp
qed

lemma merge_set_subset:
  "set (gst_caps_merge_structure sub caps s) \<subseteq> insert s (set caps)"
  by (auto simp: gst_caps_merge_structure_def)

lemma merge_mono: "x \<in> set caps \<Longrightarrow> x \<in> set (gst_caps_merge_structure sub caps s)"
  by (simp add: gst_caps_merge_structure_def)

lemma append_other_mono:
  "x \<in> set caps \<Longrightarrow> x \<in> set (append_with_other_format sub caps s isfloat)"
  by (simp add: append_with_other_format_def merge_mono)

lemma merge_appends:
  "\<not> gst_caps_is_subset_structure sub caps s \<Longrightarrow> s \<in> set (gst_caps_merge_structure sub caps s)"
  by (simp add: gst_caps_merge_structure_def)

lemma get_value_tier_A_kept:
  assumes "g \<in> {''rate'', ''channels''}"
  shows "gst_structure_get_value (transform_tier_A structure) g =
           gst_structure_get_value structure g"
  using assms unfolding transform_tier_A_def Let_def
  by (auto simp: get_value_make_lossless_other get_value_set_value get_value_copy_fields_used
      fields_used_def split: option.splits)

lemma get_value_tier_B_rate:
  "gst_structure_get_value (transform_tier_B gp ch0 structure) ''rate'' =
     gst_structure_get_value structure ''rate''"
  unfolding transform_tier_B_def Let_def
  by (simp add: get_value_pin_channels get_value_remove_field get_value_set_value
      get_value_set_structure_widths get_value_tier_A_kept split: option.splits)

lemma get_value_tier_C_rate:
  "gst_structure_get_value (transform_tier_C gp ch0 structure) ''rate'' =
     gst_structure_get_value structure ''rate''"
  unfolding transform_tier_C_def Let_def
  by (simp add: get_value_set_value get_value_set_structure_widths get_value_tier_B_rate
      set_structure_widths_32_and_64_def)

lemma get_value_tier_D_rate:
  "gst_structure_get_value (transform_tier_D gp ch0 structure) ''rate'' =
     gst_structure_get_value structure ''rate''"
  unfolding transform_tier_D_def Let_def
  by (simp add: get_value_pin_channels get_value_remove_field get_value_set_value
      get_value_tier_B_rate)

lemma get_value_tier_E_rate:
  "gst_structure_get_value (transform_tier_E gp ch0 structure) ''rate'' =
     gst_structure_get_value structure ''rate''"
  unfolding transform_tier_E_def
  by (simp add: get_value_set_value get_value_set_structure_widths get_value_tier_D_rate)

lemmas tier_rates = get_value_tier_A_kept [of "''rate''", simplified] get_value_tier_B_rate
  get_value_tier_C_rate get_value_tier_D_rate get_value_tier_E_rate

lemma merge_within:
  "set caps \<subseteq> A \<Longrightarrow> s \<in> A \<Longrightarrow> set (gst_caps_merge_structure sub caps s) \<subseteq> A"
  by (auto simp: gst_caps_merge_structure_def)

lemma append_other_within:
  "set caps \<subseteq> A \<Longrightarrow> other_format s isfloat \<in> A \<Longrightarrow>
     set (append_with_other_format sub caps s isfloat) \<subseteq> A"
  by (simp add: append_with_other_format_def merge_within)

lemma if_within:
  "(c \<Longrightarrow> set a \<subseteq> A) \<Longrightarrow> (\<not> c \<Longrightarrow> set b \<subseteq> A) \<Longrightarrow> set (if c then a else b) \<subseteq> A"
  by simp

lemma if_member:
  "(c \<Longrightarrow> x \<in> set a) \<Longrightarrow> (\<not> c \<Longrightarrow> x \<in> set b) \<Longrightarrow> x \<in> set (if c then a else b)"
  by simp

text \<open>Every structure one iteration adds to the result carries the rate field of its input.\<close>

lemma transform_structure_rate:
  "set (fst (transform_structure gp sub ch0 ret structure)) \<subseteq>
     set ret \<union> {x. gst_structure_get_value x ''rate'' =
                     gst_structure_get_value structure ''rate''}"
  unfolding transform_structure_def Let_def fst_conv
  by (intro merge_within append_other_within if_within)
     (simp_all add: tier_rates get_value_other_format)

lemma transform_structure_channels_local:
  "snd (transform_structure gp sub ch0 ret structure) = channels_local ch0 structure"
  by (simp add: transform_structure_def Let_def)

text \<open>The second tier of an iteration is in the result unless an earlier structure covers it.\<close>

lemma transform_structure_tier_B:
  assumes "\<forall>x\<in>set ret. \<not> sub (transform_tier_B gp ch0 structure) x"
    and "\<not> sub (transform_tier_B gp ch0 structure) (transform_tier_A structure)"
    and "\<not> sub (transform_tier_B gp ch0 structure)
             (other_format (transform_tier_A structure) (is_float_structure structure))"
  shows "transform_tier_B gp ch0 structure \<in>
           set (fst (transform_structure gp sub ch0 ret structure))"
proof -
  let ?b = "transform_tier_B gp ch0 structure"
  let ?f = "is_float_structure structure"
  let ?r2 = "append_with_other_format sub
               (gst_caps_merge_structure sub ret (transform_tier_A structure))
               (transform_tier_A structure) ?f"
  have "set ?r2 \<subseteq> set ret \<union> {transform_tier_A structure,
                                  other_format (transform_tier_A structure) ?f}"
    by (intro merge_within append_other_within) auto
  with assms have "\<not> gst_caps_is_subset_structure sub ?r2 ?b"
    by (auto simp: gst_caps_is_subset_structure_def list_ex_iff)
  then have "?b \<in> set (gst_caps_merge_structure sub ?r2 ?b)"
    by (rule merge_appends)
  then have 3: "?b \<in> set (append_with_other_format sub
                               (gst_caps_merge_structure sub ?r2 ?b) ?b ?f)"
    (is "_ \<in> set ?r4")
    by (rule append_other_mono)
  let ?r5 = "if (case gst_structure_get_int structure ''width'' of
                   None \<Rightarrow> True | Some width \<Rightarrow> width > 16) then
               if ?f then
                 append_with_other_format sub ?r4 (transform_tier_C gp ch0 structure) True
               else gst_caps_merge_structure sub ?r4 (transform_tier_C gp ch0 structure)
             else ?r4"
  have 5: "?b \<in> set ?r5"
    by (intro 3 if_member merge_mono append_other_mono)
  let ?r7 = "append_with_other_format sub
               (gst_caps_merge_structure sub ?r5 (transform_tier_D gp ch0 structure))
               (transform_tier_D gp ch0 structure) ?f"
  have 7: "?b \<in> set ?r7"
    by (intro 5 merge_mono append_other_mono)
  have "fst (transform_structure gp sub ch0 ret structure) =
          (if ?f then append_with_other_format sub ?r7 (transform_tier_E gp ch0 structure) True
           else gst_caps_merge_structure sub ?r7 (transform_tier_E gp ch0 structure))"
    unfolding transform_structure_def Let_def fst_conv ..
  moreover have "?b \<in> set (if ?f then append_with_other_format sub ?r7
                                   (transform_tier_E gp ch0 structure) True
                           else gst_caps_merge_structure sub ?r7
                                   (transform_tier_E gp ch0 structure))"
    by (intro 7 if_member merge_mono append_other_mono)
  ultimately show ?thesis
    by simp
qed


lemma ex_any_channels_get:
  "gst_structure_get_int ex_any_channels ''channels'' = None"
  "gst_structure_get_value ex_any_channels ''channels'' = Some (VIntRange 1 8)"
  "gst_structure_get_value ex_any_channels ''rate'' = Some (VInt 48000)"
  by (simp_all add: ex_any_channels_def gst_structure_get_int_def gst_structure_get_value_def)

lemma ex_int_caps_rate:
  "gst_structure_get_value (hd (ex_int_caps w d c)) ''rate'' = Some (VInt 44100)"
  by (simp add: ex_int_caps_def gst_structure_get_value_def)

lemma subset_test_soundD:
  "subset_test_sound sub \<Longrightarrow> sub a b \<Longrightarrow> gst_structure_get_value b f = Some v \<Longrightarrow>
     \<exists>u. gst_structure_get_value a f = Some u \<and> allowed_ints u \<subseteq> allowed_ints v"
  unfolding subset_test_sound_def by blast

text \<open>
  Claim C4. The expander on two input structures, the first with 4 channels and the
  second, of another rate, with a channel count that is not fixed: the second is
  eligible for mixing and unconstrained, and the range 1 to 11 is what its second tier
  should carry. The result holds its second tier with the range 4 to 11: the local
  \<^verbatim>\<open>channels\<close> still has the count of the first structure. This holds for every
  subset test that respects the integer fields.
\<close>

theorem transform_caps_stale_channels:
  assumes "subset_test_sound sub"
  shows "gst_structure_get_int ex_any_channels ''channels'' = None \<and>
         allow_mixing gp ex_any_channels \<and>
         transform_tier_B gp 4 ex_any_channels \<in>
           set (gst_audio_convert_transform_caps gp sub isect
                  [hd (ex_int_caps 16 16 4), ex_any_channels] None) \<and>
         gst_structure_get_value (transform_tier_B gp 4 ex_any_channels) ''rate'' =
           Some (VInt 48000) \<and>
         gst_structure_get_value (transform_tier_B gp 4 ex_any_channels) ''channels'' =
           Some (VIntRange 4 11)"
proof -
  let ?s1 = "hd (ex_int_caps 16 16 4)"
  let ?s2 = "ex_any_channels"
  let ?b = "transform_tier_B gp 4 ?s2"
  let ?R1 = "fst (transform_structure gp sub 0 [] ?s1)"
  have mix: "allow_mixing gp ?s2"
    by (simp add: allow_mixing_def ex_any_channels_get)
  have ch: "channels_local 0 ?s1 = 4" "channels_local 4 ?s2 = 4"
    by (simp_all add: channels_local_def ex_int_caps_get ex_any_channels_get)
  have b_ch: "gst_structure_get_value ?b ''channels'' = Some (VIntRange 4 11)"
    using tier_B_mixing(1) [OF mix, of 4] by (simp add: ch)
  have b_rate: "gst_structure_get_value ?b ''rate'' = Some (VInt 48000)"
    by (simp add: get_value_tier_B_rate ex_any_channels_get)
  have R1: "gst_structure_get_value x ''rate'' = Some (VInt 44100)" if "x \<in> set ?R1" for x
    using that transform_structure_rate [of gp sub 0 "[]" ?s1]
    by (auto simp: ex_int_caps_rate)
  have no2: "\<not> sub ?s2 x" if "x \<in> set ?R1" for x
  proof
    assume "sub ?s2 x"
    from subset_test_soundD [OF assms this R1 [OF that]] show False
      by (simp add: ex_any_channels_get)
  qed
  have nob: "\<not> sub ?b x" if "x \<in> set ?R1" for x
  proof
    assume "sub ?b x"
    from subset_test_soundD [OF assms this R1 [OF that]] show False
      by (simp add: b_rate)
  qed
  have noa: "\<not> sub ?b y"
    if "gst_structure_get_value y ''channels'' = Some (VIntRange 1 8)" for y
  proof
    assume "sub ?b y"
    from subset_test_soundD [OF assms this that] have "{4..11} \<subseteq> {1..(8::int)}"
      by (simp add: b_ch)
    then show False by simp
  qed
  have a_ch: "gst_structure_get_value (transform_tier_A ?s2) ''channels'' = Some (VIntRange 1 8)"
    by (simp add: get_value_tier_A_kept ex_any_channels_get)
  have o_ch: "gst_structure_get_value
                (other_format (transform_tier_A ?s2) (is_float_structure ?s2)) ''channels'' =
              Some (VIntRange 1 8)"
    by (simp add: get_value_other_format a_ch)
  have mem: "?b \<in> set (fst (transform_structure gp sub 4 ?R1 ?s2))"
    by (rule transform_structure_tier_B) (use nob noa a_ch o_ch in auto)
  have skip: "\<not> gst_caps_is_subset_structure sub ?R1 ?s2"
    using no2 by (auto simp: gst_caps_is_subset_structure_def list_ex_iff)
  have "gst_audio_convert_transform_caps gp sub isect [?s1, ?s2] None =
          fst (transform_structure gp sub 4 ?R1 ?s2)"
    using skip
    by (simp add: gst_audio_convert_transform_caps_def case_prod_beta
        transform_structure_channels_local ch)
  with mem mix b_ch b_rate show ?thesis
    by (simp add: ex_any_channels_get)
qed

theorem transform_caps_stale_channels_witness:
  "subset_test_sound (=) \<and>
   transform_tier_B gst_audio_get_channel_positions 4 ex_any_channels \<in>
     set (gst_audio_convert_transform_caps gst_audio_get_channel_positions (=) (\<lambda>f r. r)
            [hd (ex_int_caps 16 16 4), ex_any_channels] None) \<and>
   gst_structure_get_value
     (transform_tier_B gst_audio_get_channel_positions 4 ex_any_channels) ''channels'' =
     Some (VIntRange 4 11)"
proof -
  have s: "subset_test_sound (=)"
    by (simp add: subset_test_sound_def)
  from transform_caps_stale_channels [OF s, of gst_audio_get_channel_positions "\<lambda>f r. r"] s
  show ?thesis by simp
qed


text \<open>
  Claim C5. When the mixing check flags the input as unpositioned and its channel count
  is the fixed value c, mixing is disallowed, and the second tier, the
  channel-reduction tier and their variants of the other sample type all carry
  exactly the count c and the channel layout field of the input, present or absent.
\<close>

theorem unpositioned_pins_channels:
  assumes "gst_structure_get_int structure ''channels'' = Some c"
    and "structure_has_fixed_channel_positions gp structure u = (True, True)"
  shows "\<not> allow_mixing gp structure \<and>
         gst_structure_get_value (transform_tier_B gp ch0 structure) ''channels'' = Some (VInt c) \<and>
         gst_structure_get_value (transform_tier_B gp ch0 structure) ''channel-positions'' =
           gst_structure_get_value structure ''channel-positions'' \<and>
         gst_structure_get_value (transform_tier_D gp ch0 structure) ''channels'' = Some (VInt c) \<and>
         gst_structure_get_value (transform_tier_D gp ch0 structure) ''channel-positions'' =
           gst_structure_get_value structure ''channel-positions'' \<and>
         gst_structure_get_value (other_format (transform_tier_B gp ch0 structure) isfloat)
             ''channels'' = Some (VInt c) \<and>
         gst_structure_get_value (other_format (transform_tier_B gp ch0 structure) isfloat)
             ''channel-positions'' = gst_structure_get_value structure ''channel-positions'' \<and>
         gst_structure_get_value (other_format (transform_tier_D gp ch0 structure) isfloat)
             ''channels'' = Some (VInt c) \<and>
         gst_structure_get_value (other_format (transform_tier_D gp ch0 structure) isfloat)
             ''channel-positions'' = gst_structure_get_value structure ''channel-positions''"
proof -
  have nm: "\<not> allow_mixing gp structure"
    using has_fixed_positions_flag [OF assms(2), of False] by (simp add: allow_mixing_iff)
  have cl: "channels_local ch0 structure = c"
    using assms(1) by (simp add: channels_local_def)
  show ?thesis
    using nm by (simp add: tier_B_pinned [OF nm] tier_D_pinned [OF nm] cl get_value_other_format)
qed

lemma ex_unpositioned_get:
  "gst_structure_get_int (ex_unpositioned c) ''channels'' = Some c"
  "gst_structure_get_value (ex_unpositioned c) ''channel-positions'' =
     Some (VArray (replicate (nat c) POSITION_NONE))"
  by (simp_all add: ex_unpositioned_def gst_structure_get_int_def gst_structure_get_value_def)

lemma ex_unpositioned_positions:
  "0 < c \<Longrightarrow> gst_audio_get_channel_positions (ex_unpositioned c) =
     Some (replicate (nat c) POSITION_NONE)"
  by (simp add: gst_audio_get_channel_positions_def ex_unpositioned_get)

lemma ex_unpositioned_flag:
  "0 < c \<Longrightarrow> structure_has_fixed_channel_positions gst_audio_get_channel_positions
     (ex_unpositioned c) u = (True, True)"
  by (cases "nat c")
     (simp_all add: structure_has_fixed_channel_positions_def ex_unpositioned_get
       ex_unpositioned_positions)

theorem unpositioned_pins_channels_witness:
  "\<not> allow_mixing gst_audio_get_channel_positions (ex_unpositioned 5) \<and>
   gst_structure_get_value
     (transform_tier_B gst_audio_get_channel_positions 0 (ex_unpositioned 5)) ''channels'' =
     Some (VInt 5) \<and>
   gst_structure_get_value
     (transform_tier_D gst_audio_get_channel_positions 0 (ex_unpositioned 5)) ''channels'' =
     Some (VInt 5) \<and>
   gst_structure_get_value
     (transform_tier_D gst_audio_get_channel_positions 0 (ex_unpositioned 5))
     ''channel-positions'' = Some (VArray (replicate (nat 5) POSITION_NONE))"
  using unpositioned_pins_channels [of "ex_unpositioned 5" 5 gst_audio_get_channel_positions
      False 0 False]
  by (simp add: ex_unpositioned_get ex_unpositioned_flag)

text \<open>
  Claim C10. For a structure with a fixed channel count c and no layout field, or one
  that is not fixed: with c at most 8 the check returns FALSE, leaves the flag alone and
  mixing is allowed; with c above 8 the check flags the structure as unpositioned,
  mixing is disallowed and the second and the channel-reduction tier carry exactly c.
  A fixed layout whose first position reads as the none-position is flagged as
  unpositioned whatever the count, and mixing is disallowed.
\<close>

theorem mixing_eligibility:
  assumes "gst_structure_get_int structure ''channels'' = Some c"
  shows "((gst_structure_get_value structure ''channel-positions'' = None \<or>
           (\<exists>v. gst_structure_get_value structure ''channel-positions'' = Some v \<and>
                \<not> gst_value_is_fixed v)) \<longrightarrow>
            (c \<le> 8 \<longrightarrow>
               structure_has_fixed_channel_positions gp structure u = (False, u) \<and>
               allow_mixing gp structure) \<and>
            (c > 8 \<longrightarrow>
               structure_has_fixed_channel_positions gp structure u = (True, True) \<and>
               \<not> allow_mixing gp structure \<and>
               gst_structure_get_value (transform_tier_B gp ch0 structure) ''channels'' =
                 Some (VInt c) \<and>
               gst_structure_get_value (transform_tier_D gp ch0 structure) ''channels'' =
                 Some (VInt c))) \<and>
         ((\<exists>v. gst_structure_get_value structure ''channel-positions'' = Some v \<and>
               gst_value_is_fixed v) \<and>
          (\<exists>ps. gp structure = Some (POSITION_NONE # ps)) \<longrightarrow>
            structure_has_fixed_channel_positions gp structure u = (True, True) \<and>
            \<not> allow_mixing gp structure)"
proof -
  have cl: "channels_local ch0 structure = c"
    using assms by (simp add: channels_local_def)
  have a: "structure_has_fixed_channel_positions gp structure u = (True, True) \<Longrightarrow>
             \<not> allow_mixing gp structure" for u
    using has_fixed_positions_flag [of gp "structure" u True False]
    by (simp add: allow_mixing_iff)
  have b: "structure_has_fixed_channel_positions gp structure False = (False, False) \<Longrightarrow>
             allow_mixing gp structure"
    by (simp add: allow_mixing_iff)
  have p: "\<not> allow_mixing gp structure \<Longrightarrow>
             gst_structure_get_value (transform_tier_B gp ch0 structure) ''channels'' =
               Some (VInt c) \<and>
             gst_structure_get_value (transform_tier_D gp ch0 structure) ''channels'' =
               Some (VInt c)"
    by (simp add: tier_B_pinned tier_D_pinned cl)
  have 1: "gst_structure_get_value structure ''channel-positions'' = None \<or>
           (\<exists>v. gst_structure_get_value structure ''channel-positions'' = Some v \<and>
                \<not> gst_value_is_fixed v) \<Longrightarrow> c \<le> 8 \<Longrightarrow>
             structure_has_fixed_channel_positions gp structure u = (False, u)" for u
    using assms unfolding structure_has_fixed_channel_positions_def Let_def by auto
  have 2: "gst_structure_get_value structure ''channel-positions'' = None \<or>
           (\<exists>v. gst_structure_get_value structure ''channel-positions'' = Some v \<and>
                \<not> gst_value_is_fixed v) \<Longrightarrow> c > 8 \<Longrightarrow>
             structure_has_fixed_channel_positions gp structure u = (True, True)"
    using assms unfolding structure_has_fixed_channel_positions_def Let_def by auto
  have 3: "(\<exists>v. gst_structure_get_value structure ''channel-positions'' = Some v \<and>
               gst_value_is_fixed v) \<and>
          (\<exists>ps. gp structure = Some (POSITION_NONE # ps)) \<Longrightarrow>
            structure_has_fixed_channel_positions gp structure u = (True, True)"
    using assms unfolding structure_has_fixed_channel_positions_def Let_def by auto
  show ?thesis
    using 1 [of u] 1 [of False] 2 3 a [of u] b p by blast
qed

theorem mixing_eligibility_witness:
  "allow_mixing gst_audio_get_channel_positions (hd (ex_int_caps 16 16 2)) \<and>
   \<not> allow_mixing gst_audio_get_channel_positions (hd (ex_int_caps 16 16 9)) \<and>
   gst_structure_get_value
     (transform_tier_D gst_audio_get_channel_positions 0 (hd (ex_int_caps 16 16 9))) ''channels'' =
     Some (VInt 9) \<and>
   \<not> allow_mixing gst_audio_get_channel_positions (ex_unpositioned 2)"
  using mixing_eligibility [of "hd (ex_int_caps 16 16 2)" 2 gst_audio_get_channel_positions False 0]
    mixing_eligibility [of "hd (ex_int_caps 16 16 9)" 9 gst_audio_get_channel_positions False 0]
    mixing_eligibility [of "ex_unpositioned 2" 2 gst_audio_get_channel_positions False 0]
  by (simp add: ex_int_caps_get ex_unpositioned_get ex_unpositioned_positions numeral_2_eq_2)


section \<open>Properties of the fixation resolver\<close>

lemma fixate_structure_steps:
  "fixate_structure width0 ins outs =
     fixate_signed_step ins (fixate_depth_step width0 ins
       (fixate_int_step ins ''width'' (fixate_int_step ins ''endianness''
         (fixate_int_step ins ''rate'' (gst_audio_convert_fixate_channels ins outs)))))"
proof -
  define o1 where "o1 = fixate_int_step ins ''rate'' (gst_audio_convert_fixate_channels ins outs)"
  define o2 where "o2 = fixate_int_step ins ''endianness'' o1"
  define o3 where "o3 = fixate_int_step ins ''width'' o2"
  define o4 where "o4 = fixate_depth_step width0 ins o3"
  have d: "o4 = (case gst_structure_get_int ins ''depth'' of
                    Some depth \<Rightarrow>
                      if gst_structure_has_field o3 ''depth''
                      then gst_structure_fixate_field_nearest_int o3 ''depth'' depth else o3
                  | None \<Rightarrow>
                      if gst_structure_has_field o3 ''depth''
                      then gst_structure_fixate_field_nearest_int o3 ''depth''
                        (case gst_structure_get_int ins ''width'' of
                           Some width \<Rightarrow> width | None \<Rightarrow> width0) else o3)"
    unfolding o4_def fixate_depth_step_def by (simp split: option.splits)
  have "fixate_structure width0 ins outs = fixate_signed_step ins o4"
    unfolding fixate_structure_def Let_def fixate_signed_step_def d o3_def o2_def o1_def
      fixate_int_step_def ..
  then show ?thesis
    unfolding o4_def o3_def o2_def o1_def .
qed


lemma get_value_fixate_nearest_other:
  "g \<noteq> f \<Longrightarrow> gst_structure_get_value (gst_structure_fixate_field_nearest_int s f t) g =
     gst_structure_get_value s g"
  unfolding gst_structure_fixate_field_nearest_int_def
  by (simp add: get_value_set_value split: option.splits GValue.splits)

lemma get_value_fixate_boolean_other:
  "g \<noteq> f \<Longrightarrow> gst_structure_get_value (gst_structure_fixate_field_boolean s f t) g =
     gst_structure_get_value s g"
  unfolding gst_structure_fixate_field_boolean_def
  by (simp add: get_value_set_value split: option.splits GValue.splits)

lemma fixate_nearest_fixed:
  "gst_structure_get_value s f = Some v \<Longrightarrow> gst_value_is_fixed v \<Longrightarrow>
     gst_structure_fixate_field_nearest_int s f t = s"
  unfolding gst_structure_fixate_field_nearest_int_def
  by (cases v) simp_all

lemma fixate_boolean_fixed:
  "gst_structure_get_value s f = Some v \<Longrightarrow> gst_value_is_fixed v \<Longrightarrow>
     gst_structure_fixate_field_boolean s f t = s"
  unfolding gst_structure_fixate_field_boolean_def
  by (cases v) simp_all

lemma list_nearest_int_None:
  "list_nearest_int t vs = None \<longleftrightarrow> (\<forall>i. VInt i \<notin> set vs)"
proof (induction vs)
  case Nil
  show ?case by simp
next
  case (Cons v vs)
  then show ?case
    by (cases v) (auto split: option.splits)
qed

lemma nearest_in_singleton: "nearest_in {x} t x"
  by (simp add: nearest_in_def)

lemma nearest_in_insert:
  assumes "nearest_in C t b"
  shows "nearest_in (insert x C) t (if nearer t x b then x else b)"
proof (cases "nearer t x b")
  case True
  have "\<forall>y\<in>insert x C. \<bar>t - x\<bar> < \<bar>t - y\<bar> \<or> (\<bar>t - x\<bar> = \<bar>t - y\<bar> \<and> x \<le> y)"
  proof
    fix y assume "y \<in> insert x C"
    then consider "y = x" | "y \<in> C" by auto
    then show "\<bar>t - x\<bar> < \<bar>t - y\<bar> \<or> (\<bar>t - x\<bar> = \<bar>t - y\<bar> \<and> x \<le> y)"
    proof cases
      case 1
      then show ?thesis by simp
    next
      case 2
      with assms have "\<bar>t - b\<bar> < \<bar>t - y\<bar> \<or> (\<bar>t - b\<bar> = \<bar>t - y\<bar> \<and> b \<le> y)"
        by (simp add: nearest_in_def)
      with True show ?thesis
        unfolding nearer_def by linarith
    qed
  qed
  with True show ?thesis by (simp add: nearest_in_def)
next
  case False
  have "\<forall>y\<in>insert x C. \<bar>t - b\<bar> < \<bar>t - y\<bar> \<or> (\<bar>t - b\<bar> = \<bar>t - y\<bar> \<and> b \<le> y)"
  proof
    fix y assume "y \<in> insert x C"
    then consider "y = x" | "y \<in> C" by auto
    then show "\<bar>t - b\<bar> < \<bar>t - y\<bar> \<or> (\<bar>t - b\<bar> = \<bar>t - y\<bar> \<and> b \<le> y)"
    proof cases
      case 1
      with False show ?thesis
        unfolding nearer_def by linarith
    next
      case 2
      with assms show ?thesis
        by (simp add: nearest_in_def)
    qed
  qed
  with False assms show ?thesis by (simp add: nearest_in_def)
qed

lemma list_nearest_int_nearest:
  "list_nearest_int t vs = Some b \<Longrightarrow> nearest_in {i. VInt i \<in> set vs} t b"
proof (induction vs arbitrary: b)
  case Nil
  then show ?case by simp
next
  case (Cons v vs)
  show ?case
  proof (cases "\<exists>x. v = VInt x")
    case False
    then have e: "{i. VInt i \<in> set (v # vs)} = {i. VInt i \<in> set vs}"
      by auto
    from False Cons.prems have "list_nearest_int t vs = Some b"
      by (cases v) simp_all
    from Cons.IH [OF this] show ?thesis
      unfolding e .
  next
    case True
    then obtain x where v: "v = VInt x" by blast
    have e: "{i. VInt i \<in> set (v # vs)} = insert x {i. VInt i \<in> set vs}"
      unfolding v by auto
    show ?thesis
    proof (cases "list_nearest_int t vs")
      case None
      then have "{i. VInt i \<in> set vs} = {}"
        by (simp add: list_nearest_int_None)
      moreover from None Cons.prems have "b = x"
        by (simp add: v)
      ultimately show ?thesis
        unfolding e by (simp add: nearest_in_singleton)
    next
      case (Some b')
      have n: "nearest_in {i. VInt i \<in> set vs} t b'"
        by (rule Cons.IH [OF Some])
      from Some Cons.prems have "b = (if nearer t x b' then x else b')"
        by (simp add: v split: if_splits)
      with nearest_in_insert [OF n, of x] show ?thesis
        unfolding e by simp
    qed
  qed
qed

lemma nearest_in_range:
  assumes "lo \<le> hi"
  shows "nearest_in {lo..hi} t (max lo (min hi t))"
proof -
  consider "t < lo" | "lo \<le> t \<and> t \<le> hi" | "hi < t" by linarith
  then show ?thesis
  proof cases
    case 1
    with assms have "max lo (min hi t) = lo" by simp
    with 1 assms show ?thesis by (auto simp: nearest_in_def)
  next
    case 2
    then have "max lo (min hi t) = t" by simp
    with 2 show ?thesis by (auto simp: nearest_in_def)
  next
    case 3
    with assms have "max lo (min hi t) = hi" by simp
    with 3 assms show ?thesis by (auto simp: nearest_in_def)
  qed
qed

lemma fixate_nearest_is_nearest:
  assumes "gst_structure_get_value s f = Some v" and "allowed_ints v \<noteq> {}"
  shows "\<exists>x. gst_structure_get_int (gst_structure_fixate_field_nearest_int s f t) f = Some x \<and>
             nearest_in (allowed_ints v) t x"
proof (cases v)
  case (VInt i)
  with assms(1) show ?thesis
    by (simp add: gst_structure_fixate_field_nearest_int_def gst_structure_get_int_def
        nearest_in_singleton)
next
  case (VIntRange lo hi)
  with assms have "lo \<le> hi" by simp
  with assms(1) VIntRange show ?thesis
    by (simp add: gst_structure_fixate_field_nearest_int_def gst_structure_get_int_def
        get_value_set_value nearest_in_range)
next
  case (VList vs)
  with assms(2) obtain b where b: "list_nearest_int t vs = Some b"
    using list_nearest_int_None [of t vs] by auto
  from list_nearest_int_nearest [OF b] assms(1) VList b show ?thesis
    by (simp add: gst_structure_fixate_field_nearest_int_def gst_structure_get_int_def
        get_value_set_value)
qed (use assms in simp_all)


lemma get_value_set_channel_positions_other:
  "g \<noteq> ''channel-positions'' \<Longrightarrow>
     gst_structure_get_value (gst_audio_set_channel_positions s pos) g =
       gst_structure_get_value s g"
  unfolding gst_audio_set_channel_positions_def
  by (simp add: get_value_set_value split: option.splits)

lemma get_value_fixate_other_channels_other:
  "g \<noteq> ''channel-positions'' \<Longrightarrow>
     gst_structure_get_value (fixate_other_channels outs ol oc) g =
       gst_structure_get_value outs g"
  unfolding fixate_other_channels_def Let_def
  by (simp add: get_value_set_value get_value_set_channel_positions_other split: option.splits)

lemma get_value_fixate_same_channels_other:
  "g \<noteq> ''channel-positions'' \<Longrightarrow> fixate_same_channels il outs ol oc = Inl outs' \<Longrightarrow>
     gst_structure_get_value outs' g = gst_structure_get_value outs g"
  unfolding fixate_same_channels_def
  by (auto simp: get_value_set_value split: option.splits if_splits)

lemma get_value_fixate_channels_other:
  assumes "g \<noteq> ''channel-positions''" and "g \<noteq> ''channels''"
  shows "gst_structure_get_value (gst_audio_convert_fixate_channels ins outs) g =
           gst_structure_get_value outs g"
proof -
  have n: "gst_structure_get_value
             (gst_structure_fixate_field_nearest_int outs ''channels'' t) g =
           gst_structure_get_value outs g" for t
    using assms by (simp add: get_value_fixate_nearest_other)
  show ?thesis
    unfolding gst_audio_convert_fixate_channels_def Let_def
    using assms
    by (auto simp: get_value_remove_field n get_value_fixate_other_channels_other
        dest: get_value_fixate_same_channels_other [where g = g]
        split: option.splits sum.splits)
qed

lemma get_value_fixate_int_step_other:
  "g \<noteq> f \<Longrightarrow> gst_structure_get_value (fixate_int_step ins f outs) g =
     gst_structure_get_value outs g"
  unfolding fixate_int_step_def
  by (simp add: get_value_fixate_nearest_other split: option.splits)

lemma get_value_fixate_depth_step_other:
  "g \<noteq> ''depth'' \<Longrightarrow> gst_structure_get_value (fixate_depth_step w0 ins outs) g =
     gst_structure_get_value outs g"
  unfolding fixate_depth_step_def
  by (simp add: get_value_fixate_nearest_other)

lemma get_value_fixate_signed_step_other:
  "g \<noteq> ''signed'' \<Longrightarrow> gst_structure_get_value (fixate_signed_step ins outs) g =
     gst_structure_get_value outs g"
  unfolding fixate_signed_step_def
  by (simp add: get_value_fixate_boolean_other split: option.splits)

lemma get_int_cong:
  "gst_structure_get_value s f = gst_structure_get_value s' f \<Longrightarrow>
     gst_structure_get_int s f = gst_structure_get_int s' f"
  by (simp add: gst_structure_get_int_def)

lemma fixate_caps_single:
  "gst_caps_is_fixed caps \<Longrightarrow>
     gst_audio_convert_fixate_caps w0 caps (outs # rest) =
       fixate_structure w0 (hd caps) outs # rest"
  by (simp add: gst_audio_convert_fixate_caps_def)

lemma fixate_int_step_cong:
  "gst_structure_get_value s f = gst_structure_get_value s' f \<Longrightarrow>
     gst_structure_get_value (fixate_int_step ins f s) f =
       gst_structure_get_value (fixate_int_step ins f s') f"
  unfolding fixate_int_step_def gst_structure_fixate_field_nearest_int_def
    gst_structure_has_field_def
  by (simp add: get_value_set_value split: option.splits GValue.splits)

text \<open>The value of an integer field after the whole fixation is the one its own step gives.\<close>

lemma fixate_structure_rate:
  "gst_structure_get_value (fixate_structure w0 ins outs) ''rate'' =
     gst_structure_get_value (fixate_int_step ins ''rate'' outs) ''rate''"
proof -
  have "gst_structure_get_value (gst_audio_convert_fixate_channels ins outs) ''rate'' =
        gst_structure_get_value outs ''rate''"
    by (simp add: get_value_fixate_channels_other)
  from fixate_int_step_cong [OF this] show ?thesis
    unfolding fixate_structure_steps
    by (simp add: get_value_fixate_signed_step_other get_value_fixate_depth_step_other
        get_value_fixate_int_step_other)
qed

lemma fixate_structure_endianness:
  "gst_structure_get_value (fixate_structure w0 ins outs) ''endianness'' =
     gst_structure_get_value (fixate_int_step ins ''endianness'' outs) ''endianness''"
proof -
  have "gst_structure_get_value
          (fixate_int_step ins ''rate'' (gst_audio_convert_fixate_channels ins outs))
          ''endianness'' = gst_structure_get_value outs ''endianness''"
    by (simp add: get_value_fixate_int_step_other get_value_fixate_channels_other)
  from fixate_int_step_cong [OF this] show ?thesis
    unfolding fixate_structure_steps
    by (simp add: get_value_fixate_signed_step_other get_value_fixate_depth_step_other
        get_value_fixate_int_step_other)
qed

lemma fixate_structure_width:
  "gst_structure_get_value (fixate_structure w0 ins outs) ''width'' =
     gst_structure_get_value (fixate_int_step ins ''width'' outs) ''width''"
proof -
  have "gst_structure_get_value
          (fixate_int_step ins ''endianness''
            (fixate_int_step ins ''rate'' (gst_audio_convert_fixate_channels ins outs)))
          ''width'' = gst_structure_get_value outs ''width''"
    by (simp add: get_value_fixate_int_step_other get_value_fixate_channels_other)
  from fixate_int_step_cong [OF this] show ?thesis
    unfolding fixate_structure_steps
    by (simp add: get_value_fixate_signed_step_other get_value_fixate_depth_step_other)
qed

lemma fixate_structure_int_field:
  assumes "f \<in> {''rate'', ''endianness'', ''width''}"
  shows "gst_structure_get_value (fixate_structure w0 ins outs) f =
           gst_structure_get_value (fixate_int_step ins f outs) f"
  using assms fixate_structure_rate fixate_structure_endianness fixate_structure_width
  by auto

lemma fixate_structure_depth_field:
  "gst_structure_get_value (fixate_structure w0 ins outs) ''depth'' =
     gst_structure_get_value (fixate_depth_step w0 ins outs) ''depth''"
proof -
  let ?o3 = "fixate_int_step ins ''width'' (fixate_int_step ins ''endianness''
         (fixate_int_step ins ''rate'' (gst_audio_convert_fixate_channels ins outs)))"
  have c: "gst_structure_get_value ?o3 ''depth'' = gst_structure_get_value outs ''depth''"
    by (simp add: get_value_fixate_int_step_other get_value_fixate_channels_other)
  have "gst_structure_get_value (fixate_depth_step w0 ins ?o3) ''depth'' =
        gst_structure_get_value (fixate_depth_step w0 ins outs) ''depth''"
    using c unfolding fixate_depth_step_def gst_structure_fixate_field_nearest_int_def
      gst_structure_has_field_def
    by (simp add: get_value_set_value split: option.splits GValue.splits)
  then show ?thesis
    unfolding fixate_structure_steps
    by (simp add: get_value_fixate_signed_step_other)
qed


lemma fixate_int_step_nearest:
  assumes "gst_structure_get_int ins f = Some t"
    and "gst_structure_get_value outs f = Some v" and "allowed_ints v \<noteq> {}"
  shows "\<exists>x. gst_structure_get_int (fixate_int_step ins f outs) f = Some x \<and>
             nearest_in (allowed_ints v) t x"
  using fixate_nearest_is_nearest [OF assms(2,3), of t] assms(1,2)
  by (simp add: fixate_int_step_def gst_structure_has_field_def)

lemma fixate_depth_step_nearest:
  assumes "gst_structure_get_value outs ''depth'' = Some v" and "allowed_ints v \<noteq> {}"
  shows "\<exists>x. gst_structure_get_int (fixate_depth_step w0 ins outs) ''depth'' = Some x \<and>
             nearest_in (allowed_ints v)
               (case gst_structure_get_int ins ''depth'' of
                  Some depth \<Rightarrow> depth
                | None \<Rightarrow> (case gst_structure_get_int ins ''width'' of
                             Some width \<Rightarrow> width | None \<Rightarrow> w0)) x"
  using fixate_nearest_is_nearest [OF assms] assms(1)
  by (simp add: fixate_depth_step_def gst_structure_has_field_def)

lemma fixate_range_value:
  "gst_structure_get_value outs f = Some (VIntRange lo hi) \<Longrightarrow> lo \<le> hi \<Longrightarrow>
     gst_structure_get_int (gst_structure_fixate_field_nearest_int outs f t) f =
       Some (max lo (min hi t))"
  by (simp add: gst_structure_fixate_field_nearest_int_def gst_structure_get_int_def
      get_value_set_value)

lemma ex_in_no_depth_get:
  "gst_caps_is_fixed ex_in_no_depth"
  "gst_structure_get_int (hd ex_in_no_depth) ''width'' = Some 8"
  "gst_structure_get_int (hd ex_in_no_depth) ''depth'' = None"
  "gst_structure_get_value (hd ex_in_no_depth) ''depth'' = None"
  by (simp_all add: ex_in_no_depth_def gst_caps_is_fixed_def gst_structure_get_int_def
      gst_structure_get_value_def)

lemma ex_out_ranges_get:
  "gst_structure_get_value ex_out_ranges ''width'' = Some (VIntRange 16 32)"
  "gst_structure_get_value ex_out_ranges ''depth'' = Some (VIntRange 1 32)"
  by (simp_all add: ex_out_ranges_def gst_structure_get_value_def)

text \<open>
  Claim C2. With a fixed input, a fixed input value t for the rate, the byte order or
  the width, and a candidate that allows at least one integer for that field, the
  fixation sets the field to an allowed integer nearest to t, the lower one of two
  equally near. For the width range 16 to 32 the input width 24 gives 24 and the input
  width 8 gives 16.
\<close>

theorem fixate_nearest_fields:
  assumes "gst_caps_is_fixed caps"
    and "f \<in> {''rate'', ''endianness'', ''width''}"
    and "gst_structure_get_int (hd caps) f = Some t"
    and "gst_structure_get_value outs f = Some v"
    and "allowed_ints v \<noteq> {}"
  shows "(\<exists>x. gst_structure_get_int
                (hd (gst_audio_convert_fixate_caps w0 caps (outs # rest))) f = Some x \<and>
              nearest_in (allowed_ints v) t x) \<and>
         (f = ''width'' \<and> v = VIntRange 16 32 \<and> t = 24 \<longrightarrow>
            gst_structure_get_int
              (hd (gst_audio_convert_fixate_caps w0 caps (outs # rest))) ''width'' = Some 24) \<and>
         (f = ''width'' \<and> v = VIntRange 16 32 \<and> t = 8 \<longrightarrow>
            gst_structure_get_int
              (hd (gst_audio_convert_fixate_caps w0 caps (outs # rest))) ''width'' = Some 16)"
proof -
  let ?r = "hd (gst_audio_convert_fixate_caps w0 caps (outs # rest))"
  have r: "gst_structure_get_int ?r f = gst_structure_get_int (fixate_int_step (hd caps) f outs) f"
    by (rule get_int_cong)
       (simp add: fixate_caps_single [OF assms(1)] fixate_structure_int_field [OF assms(2)])
  have 1: "\<exists>x. gst_structure_get_int ?r f = Some x \<and> nearest_in (allowed_ints v) t x"
    unfolding r by (rule fixate_int_step_nearest [OF assms(3,4,5)])
  have s: "gst_structure_get_int ?r f =
           gst_structure_get_int (gst_structure_fixate_field_nearest_int outs f t) f"
    unfolding r using assms(3,4) by (simp add: fixate_int_step_def gst_structure_has_field_def)
  have 2: "f = ''width'' \<and> v = VIntRange 16 32 \<and> t = 24 \<longrightarrow>
             gst_structure_get_int ?r ''width'' = Some 24"
    using s assms(4) by (auto simp: fixate_range_value)
  have 3: "f = ''width'' \<and> v = VIntRange 16 32 \<and> t = 8 \<longrightarrow>
             gst_structure_get_int ?r ''width'' = Some 16"
    using s assms(4) by (auto simp: fixate_range_value)
  from 1 2 3 show ?thesis by blast
qed

lemma ex_out_width_list_get:
  "gst_structure_get_value ex_out_width_list ''width'' = Some (VList [VInt 32, VInt 16])"
  by (simp add: ex_out_width_list_def gst_structure_get_value_def)

lemma ex_tie_nearest: "nearest_in (allowed_ints (VList [VInt 32, VInt 16])) 24 x \<longleftrightarrow> x = 16"
  by (auto simp: nearest_in_def)

theorem fixate_nearest_fields_witness:
  "gst_structure_get_int
     (hd (gst_audio_convert_fixate_caps 0 ex_in_no_depth [ex_out_ranges])) ''width'' = Some 16 \<and>
   (\<exists>x. gst_structure_get_int
          (hd (gst_audio_convert_fixate_caps 0 ex_in_no_depth [ex_out_ranges])) ''width'' = Some x \<and>
        nearest_in (allowed_ints (VIntRange 16 32)) 8 x) \<and>
   gst_structure_get_int
     (hd (gst_audio_convert_fixate_caps 0 (ex_int_caps 24 24 2) [ex_out_width_list])) ''width'' =
     Some 16"
proof -
  have a: "allowed_ints (VIntRange 16 32) \<noteq> {}" by simp
  have b: "allowed_ints (VList [VInt 32, VInt 16]) \<noteq> {}" by auto
  have m: "''width'' \<in> {''rate'', ''endianness'', ''width''}" by simp
  note r = fixate_nearest_fields [of ex_in_no_depth "''width''" 8 ex_out_ranges
      "VIntRange 16 32" 0 "[]", OF ex_in_no_depth_get(1) m ex_in_no_depth_get(2)
      ex_out_ranges_get(1) a]
  note l = fixate_nearest_fields [of "ex_int_caps 24 24 2" "''width''" 24 ex_out_width_list
      "VList [VInt 32, VInt 16]" 0 "[]", OF ex_int_caps_get(9) m ex_int_caps_get(3)
      ex_out_width_list_get b]
  from l obtain x where
    "gst_structure_get_int
       (hd (gst_audio_convert_fixate_caps 0 (ex_int_caps 24 24 2) [ex_out_width_list])) ''width'' =
       Some x" and "nearest_in (allowed_ints (VList [VInt 32, VInt 16])) 24 x"
    by blast
  then have t: "gst_structure_get_int
       (hd (gst_audio_convert_fixate_caps 0 (ex_int_caps 24 24 2) [ex_out_width_list])) ''width'' =
       Some 16"
    using ex_tie_nearest [of x] by simp
  from r t show ?thesis by auto
qed

text \<open>
  Claim C1, as amended. With a fixed input and a candidate that allows at least one
  integer for the depth: when the input has a fixed depth, the depth is fixated to an
  allowed integer nearest to it; when the input has no fixed depth and a fixed width,
  the depth is fixated to an allowed integer nearest to the width of the input.
\<close>

theorem fixate_depth_nearest:
  assumes "gst_caps_is_fixed caps"
    and "gst_structure_get_value outs ''depth'' = Some v"
    and "allowed_ints v \<noteq> {}"
  shows "(\<forall>d. gst_structure_get_int (hd caps) ''depth'' = Some d \<longrightarrow>
            (\<exists>x. gst_structure_get_int
                   (hd (gst_audio_convert_fixate_caps w0 caps (outs # rest))) ''depth'' = Some x \<and>
                 nearest_in (allowed_ints v) d x)) \<and>
         (\<forall>w. gst_structure_get_int (hd caps) ''depth'' = None \<and>
              gst_structure_get_int (hd caps) ''width'' = Some w \<longrightarrow>
            (\<exists>x. gst_structure_get_int
                   (hd (gst_audio_convert_fixate_caps w0 caps (outs # rest))) ''depth'' = Some x \<and>
                 nearest_in (allowed_ints v) w x))"
proof -
  let ?r = "hd (gst_audio_convert_fixate_caps w0 caps (outs # rest))"
  have r: "gst_structure_get_int ?r ''depth'' =
           gst_structure_get_int (fixate_depth_step w0 (hd caps) outs) ''depth''"
    by (rule get_int_cong)
       (simp add: fixate_caps_single [OF assms(1)] fixate_structure_depth_field)
  from fixate_depth_step_nearest [OF assms(2,3), of w0 "hd caps"] show ?thesis
    unfolding r by auto
qed

theorem fixate_depth_nearest_witness:
  "\<exists>x. gst_structure_get_int
         (hd (gst_audio_convert_fixate_caps 0 ex_in_no_depth [ex_out_ranges])) ''depth'' = Some x \<and>
       nearest_in (allowed_ints (VIntRange 1 32)) 8 x"
  using fixate_depth_nearest [of ex_in_no_depth ex_out_ranges "VIntRange 1 32" 0 "[]"]
  by (simp add: ex_in_no_depth_get ex_out_ranges_get)

lemma ex_fixated_width:
  "gst_structure_get_int
     (hd (gst_audio_convert_fixate_caps 0 ex_in_no_depth [ex_out_ranges])) ''width'' = Some 16"
proof -
  have "gst_structure_get_int (fixate_structure 0 (hd ex_in_no_depth) ex_out_ranges) ''width'' =
        gst_structure_get_int (fixate_int_step (hd ex_in_no_depth) ''width'' ex_out_ranges) ''width''"
    by (rule get_int_cong) (rule fixate_structure_width)
  then show ?thesis
    by (simp add: fixate_caps_single ex_in_no_depth_get fixate_int_step_def
        gst_structure_has_field_def ex_out_ranges_get fixate_range_value)
qed

lemma ex_fixated_depth:
  "gst_structure_get_int
     (hd (gst_audio_convert_fixate_caps 0 ex_in_no_depth [ex_out_ranges])) ''depth'' = Some 8"
proof -
  have "gst_structure_get_int (fixate_structure 0 (hd ex_in_no_depth) ex_out_ranges) ''depth'' =
        gst_structure_get_int (fixate_depth_step 0 (hd ex_in_no_depth) ex_out_ranges) ''depth''"
    by (rule get_int_cong) (rule fixate_structure_depth_field)
  then show ?thesis
    by (simp add: fixate_caps_single ex_in_no_depth_get fixate_depth_step_def
        gst_structure_has_field_def ex_out_ranges_get fixate_range_value)
qed

theorem fixate_depth_output_width_counterexample:
  "gst_caps_is_fixed ex_in_no_depth \<and>
   gst_structure_get_value (hd ex_in_no_depth) ''depth'' = None \<and>
   gst_structure_get_value ex_out_ranges ''depth'' = Some (VIntRange 1 32) \<and>
   gst_structure_get_int
     (hd (gst_audio_convert_fixate_caps 0 ex_in_no_depth [ex_out_ranges])) ''width'' = Some 16 \<and>
   gst_structure_get_int
     (hd (gst_audio_convert_fixate_caps 0 ex_in_no_depth [ex_out_ranges])) ''depth'' = Some 8 \<and>
   \<not> nearest_in (allowed_ints (VIntRange 1 32)) 16 8"
proof -
  have "\<not> nearest_in (allowed_ints (VIntRange 1 32)) 16 8"
    by (auto simp: nearest_in_def intro!: bexI [of _ 16])
  then show ?thesis
    by (simp add: ex_in_no_depth_get ex_out_ranges_get ex_fixated_width ex_fixated_depth)
qed


lemma set_value_same:
  "gst_structure_get_value s f = Some v \<Longrightarrow> gst_structure_set_value s f v = s"
  by (simp add: gst_structure_get_value_def gst_structure_set_value_def update_triv)

lemma caps_fixed_single: "gst_caps_is_fixed caps \<Longrightarrow> caps = [hd caps]"
  by (cases caps; cases "tl caps") (simp_all add: gst_caps_is_fixed_def)

lemma caps_fixed_field:
  assumes "gst_caps_is_fixed caps" and "gst_structure_get_value (hd caps) f = Some v"
  shows "gst_value_is_fixed v"
proof -
  from caps_fixed_single [OF assms(1)] assms(1)
  have "list_all (\<lambda>kv. gst_value_is_fixed (snd kv)) (s_fields (hd caps))"
    by (cases caps; cases "tl caps") (simp_all add: gst_caps_is_fixed_def)
  moreover from assms(2) have "(f, v) \<in> set (s_fields (hd caps))"
    by (simp add: gst_structure_get_value_def map_of_SomeD)
  ultimately show ?thesis
    by (auto simp: list_all_iff)
qed

lemma fixate_nearest_all_fixed:
  "all_fixed s \<Longrightarrow> gst_structure_fixate_field_nearest_int s f t = s"
proof (cases "gst_structure_get_value s f")
  case None
  then show ?thesis by (simp add: gst_structure_fixate_field_nearest_int_def)
next
  case (Some v)
  assume "all_fixed s"
  with Some have "gst_value_is_fixed v" by (simp add: all_fixed_def)
  with Some show ?thesis by (rule fixate_nearest_fixed)
qed

lemma fixate_boolean_all_fixed:
  "all_fixed s \<Longrightarrow> gst_structure_fixate_field_boolean s f t = s"
proof (cases "gst_structure_get_value s f")
  case None
  then show ?thesis by (simp add: gst_structure_fixate_field_boolean_def)
next
  case (Some v)
  assume "all_fixed s"
  with Some have "gst_value_is_fixed v" by (simp add: all_fixed_def)
  with Some show ?thesis by (rule fixate_boolean_fixed)
qed

lemma fixate_steps_all_fixed:
  assumes "all_fixed s"
  shows "fixate_int_step ins f s = s"
    and "fixate_depth_step w0 ins s = s"
    and "fixate_signed_step ins s = s"
  using assms
  by (simp_all add: fixate_int_step_def fixate_depth_step_def fixate_signed_step_def
      fixate_nearest_all_fixed fixate_boolean_all_fixed split: option.splits)

lemma fixate_structure_all_fixed:
  assumes "all_fixed (gst_audio_convert_fixate_channels ins outs)"
  shows "fixate_structure w0 ins outs = gst_audio_convert_fixate_channels ins outs"
  unfolding fixate_structure_steps
  by (simp add: fixate_steps_all_fixed [OF assms])

lemma value_intersect_self:
  "gst_value_is_fixed v \<Longrightarrow> gst_value_intersect v v"
  by (cases v) simp_all

lemma all_fixed_set_value:
  "all_fixed s \<Longrightarrow> gst_value_is_fixed v \<Longrightarrow> all_fixed (gst_structure_set_value s f v)"
  by (simp add: all_fixed_def get_value_set_value)

lemma fixate_channels_self:
  assumes "all_fixed s"
  shows "gst_audio_convert_fixate_channels s s =
     (case gst_structure_get_int s ''channels'' of
        None \<Rightarrow> s
      | Some c \<Rightarrow>
          if gst_structure_get_value s ''channel-positions'' = None \<and> 3 \<le> c \<and> c \<le> 8
          then gst_structure_set_value s ''channel-positions''
                 (VArray (take (nat c) (default_positions ! nat (c - 1))))
          else s)"
proof (cases "gst_structure_get_int s ''channels''")
  case None
  then show ?thesis
    by (simp add: gst_audio_convert_fixate_channels_def)
next
  case (Some c)
  then have hf: "gst_structure_has_field s ''channels''"
    by (auto simp: gst_structure_has_field_def gst_structure_get_int_def split: option.splits)
  note fx = fixate_nearest_all_fixed [OF assms]
  show ?thesis
  proof (cases "gst_structure_get_value s ''channel-positions''")
    case None
    then show ?thesis
      using Some hf
      by (simp add: gst_audio_convert_fixate_channels_def fx fixate_other_channels_def
          gst_audio_set_channel_positions_def)
  next
    case (Some il)
    with assms have fi: "gst_value_is_fixed il"
      by (simp add: all_fixed_def)
    have "fixate_same_channels il s (Some il) c = Inl s"
      using Some by (simp add: fixate_same_channels_def value_intersect_self [OF fi] set_value_same)
    then show ?thesis
      using Some \<open>gst_structure_get_int s ''channels'' = Some c\<close> hf
      by (simp add: gst_audio_convert_fixate_channels_def fx)
  qed
qed

lemma fixate_caps_self:
  assumes "gst_caps_is_fixed caps"
  shows "gst_audio_convert_fixate_caps w0 caps caps =
     [case gst_structure_get_int (hd caps) ''channels'' of
        None \<Rightarrow> hd caps
      | Some c \<Rightarrow>
          if gst_structure_get_value (hd caps) ''channel-positions'' = None \<and> 3 \<le> c \<and> c \<le> 8
          then gst_structure_set_value (hd caps) ''channel-positions''
                 (VArray (take (nat c) (default_positions ! nat (c - 1))))
          else hd caps]"
proof -
  have af: "all_fixed (hd caps)"
    using caps_fixed_field [OF assms] by (simp add: all_fixed_def)
  have "all_fixed (gst_audio_convert_fixate_channels (hd caps) (hd caps))"
    unfolding fixate_channels_self [OF af]
    using af by (simp add: all_fixed_set_value split: option.splits)
  from fixate_structure_all_fixed [OF this, of w0]
  have "fixate_structure w0 (hd caps) (hd caps) =
        gst_audio_convert_fixate_channels (hd caps) (hd caps)" .
  moreover have "gst_audio_convert_fixate_caps w0 caps caps =
                 [fixate_structure w0 (hd caps) (hd caps)]"
    using fixate_caps_single [OF assms, of w0 "hd caps" "[]"] caps_fixed_single [OF assms]
    by simp
  ultimately show ?thesis
    by (simp add: fixate_channels_self [OF af])
qed

text \<open>
  Claim C9, as amended. Fixating a fixed descriptor against itself returns it unchanged
  when it has no fixed channel count, or carries a channel layout, or has a channel
  count of at most 2 or above 8. With a channel count from 3 to 8 and no layout the
  result is the descriptor with the default layout of that count added, every other
  field as before.
\<close>

theorem fixate_self:
  assumes "gst_caps_is_fixed caps"
  shows "(gst_structure_get_int (hd caps) ''channels'' = None \<or>
          gst_structure_get_value (hd caps) ''channel-positions'' \<noteq> None \<or>
          (\<exists>c. gst_structure_get_int (hd caps) ''channels'' = Some c \<and> (c \<le> 2 \<or> 8 < c)) \<longrightarrow>
            gst_audio_convert_fixate_caps w0 caps caps = caps) \<and>
         (\<forall>c. gst_structure_get_int (hd caps) ''channels'' = Some c \<and>
              gst_structure_get_value (hd caps) ''channel-positions'' = None \<and>
              3 \<le> c \<and> c \<le> 8 \<longrightarrow>
            gst_audio_convert_fixate_caps w0 caps caps =
              [gst_structure_set_value (hd caps) ''channel-positions''
                 (VArray (take (nat c) (default_positions ! nat (c - 1))))])"
  using caps_fixed_single [OF assms]
  unfolding fixate_caps_self [OF assms]
  by (auto split: option.splits)

theorem fixate_self_witness:
  "gst_audio_convert_fixate_caps 0 (ex_int_caps 16 16 2) (ex_int_caps 16 16 2) =
     ex_int_caps 16 16 2 \<and>
   gst_audio_convert_fixate_caps 0 [ex_unpositioned 5] [ex_unpositioned 5] = [ex_unpositioned 5]"
proof -
  have f: "gst_caps_is_fixed [ex_unpositioned 5]"
    by (simp add: gst_caps_is_fixed_def ex_unpositioned_def)
  from fixate_self [of "ex_int_caps 16 16 2" 0] fixate_self [OF f, of 0]
  show ?thesis
    by (simp add: ex_int_caps_get ex_unpositioned_get)
qed

theorem fixate_self_counterexample:
  "gst_caps_is_fixed (ex_int_caps 16 16 4) \<and>
   gst_audio_convert_fixate_caps 0 (ex_int_caps 16 16 4) (ex_int_caps 16 16 4) \<noteq>
     ex_int_caps 16 16 4"
proof -
  let ?r = "gst_audio_convert_fixate_caps 0 (ex_int_caps 16 16 4) (ex_int_caps 16 16 4)"
  have "gst_structure_get_value (hd ?r) ''channel-positions'' \<noteq> None"
    by (simp add: fixate_caps_self ex_int_caps_get get_value_set_value)
  then have "?r \<noteq> ex_int_caps 16 16 4"
    using ex_int_caps_get(8) [of 16 16 4] by auto
  then show ?thesis
    by (simp add: ex_int_caps_get)
qed


lemma holds_array_find_suitable:
  "holds_array_of_size l oc \<Longrightarrow> find_suitable_channel_layout l oc = Some l"
  by (cases l) (simp_all add: holds_array_of_size_def)

lemma get_value_set_channel_positions:
  "gst_structure_get_int s ''channels'' = Some oc \<Longrightarrow> 0 < oc \<Longrightarrow>
     gst_structure_get_value (gst_audio_set_channel_positions s pos) ''channel-positions'' =
       Some (VArray (take (nat oc) pos))"
  by (simp add: gst_audio_set_channel_positions_def get_value_set_value)

lemma fixate_other_channels_unresolved:
  assumes "gst_structure_get_int outs ''channels'' = Some oc"
    and "case ol of None \<Rightarrow> True | Some l \<Rightarrow> find_suitable_channel_layout l oc = None"
  shows "gst_structure_get_value (fixate_other_channels outs ol oc) ''channel-positions'' =
           (if 0 < oc \<and> oc \<le> 8
            then Some (VArray (take (nat oc) (default_positions ! nat (oc - 1))))
            else gst_structure_get_value outs ''channel-positions'')"
proof (cases ol)
  case None
  then show ?thesis
    using assms(1)
    by (simp add: fixate_other_channels_def get_value_set_channel_positions)
next
  case (Some l)
  with assms(2) have n: "find_suitable_channel_layout l oc = None" by simp
  then have h: "\<not> holds_array_of_size l oc"
    using holds_array_find_suitable [of l oc] by auto
  show ?thesis
    using assms(1) Some n h
    by (auto simp: fixate_other_channels_def get_value_set_channel_positions)
qed

lemma fixate_channels_unresolved:
  assumes ic: "gst_structure_get_int ins ''channels'' = Some ic"
    and hf: "gst_structure_has_field outs ''channels''"
    and oc: "gst_structure_get_int
               (gst_structure_fixate_field_nearest_int outs ''channels'' ic) ''channels'' = Some oc"
    and un: "layout_unresolved ins outs ic oc"
  shows "gst_structure_get_value (gst_audio_convert_fixate_channels ins outs) ''channel-positions'' =
           (if gst_structure_get_value outs ''channel-positions'' = None \<and> oc \<le> 2 then None
            else if 0 < oc \<and> oc \<le> 8
            then Some (VArray (take (nat oc) (default_positions ! nat (oc - 1))))
            else gst_structure_get_value outs ''channel-positions'')"
    and "gst_structure_get_int (gst_audio_convert_fixate_channels ins outs) ''channels'' = Some oc"
proof -
  let ?o1 = "gst_structure_fixate_field_nearest_int outs ''channels'' ic"
  let ?ol = "gst_structure_get_value outs ''channel-positions''"
  let ?il = "gst_structure_get_value ins ''channel-positions''"
  have cp: "gst_structure_get_value ?o1 ''channel-positions'' = ?ol"
    by (simp add: get_value_fixate_nearest_other)
  have other: "gst_structure_get_value (fixate_other_channels ?o1 ol' oc) ''channel-positions'' =
           (if 0 < oc \<and> oc \<le> 8
            then Some (VArray (take (nat oc) (default_positions ! nat (oc - 1))))
            else ?ol)"
    if "case ol' of None \<Rightarrow> True | Some l \<Rightarrow> find_suitable_channel_layout l oc = None" for ol'
    using fixate_other_channels_unresolved [OF oc that] cp by simp
  have och: "gst_structure_get_int (fixate_other_channels ?o1 ol' oc) ''channels'' = Some oc" for ol'
    using oc get_int_cong [OF get_value_fixate_other_channels_other
        [of "''channels''" ?o1 ol' oc]] by simp
  let ?ol1 = "gst_structure_get_value ?o1 ''channel-positions''"
  have unf0: "gst_audio_convert_fixate_channels ins outs =
     (if ?ol1 = None \<and> oc \<le> 2 \<and> (ic \<noteq> oc \<or> ?il = None) then ?o1
      else (case (if ic = oc then ?il else None) of
              Some il \<Rightarrow>
                (case fixate_same_channels il ?o1 ?ol1 oc of
                   Inl outs' \<Rightarrow> outs'
                 | Inr out_layout' \<Rightarrow> fixate_other_channels ?o1 out_layout' oc)
            | None \<Rightarrow> fixate_other_channels ?o1 ?ol1 oc))"
    unfolding gst_audio_convert_fixate_channels_def Let_def ic option.case
    using hf oc by (simp only: if_False if_True not_True_eq_False not_not option.case)
  note unf = unf0 [unfolded cp]
  show "gst_structure_get_value (gst_audio_convert_fixate_channels ins outs) ''channel-positions'' =
           (if ?ol = None \<and> oc \<le> 2 then None
            else if 0 < oc \<and> oc \<le> 8
            then Some (VArray (take (nat oc) (default_positions ! nat (oc - 1))))
            else ?ol)"
  proof (cases ?ol)
    case None
    with un have d: "ic \<noteq> oc \<or> ?il = None"
      by (simp add: layout_unresolved_def)
    then have e: "(if ic = oc then ?il else None) = None" by auto
    show ?thesis
      unfolding unf e using None d cp other [of None]
      by (simp del: One_nat_def)
  next
    case (Some l)
    with un have n: "find_suitable_channel_layout l oc = None"
      and ni: "\<not> (ic = oc \<and> (case ?il of Some il \<Rightarrow> gst_value_intersect il l | None \<Rightarrow> False))"
      by (simp_all add: layout_unresolved_def)
    have h: "\<not> holds_array_of_size l oc"
      using n holds_array_find_suitable [of l oc] by auto
    show ?thesis
    proof (cases "if ic = oc then ?il else None")
      case None
      show ?thesis
        unfolding unf None using Some n other [of "Some l"]
        by simp
    next
      case (Some il)
      then have same: "ic = oc" and il: "?il = Some il"
        by (simp_all split: if_splits)
      with ni have "\<not> gst_value_intersect il l" by simp
      then have "fixate_same_channels il ?o1 (Some l) oc = Inr None"
        using h n by (simp add: fixate_same_channels_def)
      then show ?thesis
        unfolding unf using same il \<open>?ol = Some l\<close> other [of None]
        by simp
    qed
  qed
  show "gst_structure_get_int (gst_audio_convert_fixate_channels ins outs) ''channels'' = Some oc"
  proof -
    have "gst_structure_get_value (gst_audio_convert_fixate_channels ins outs) ''channels'' =
          gst_structure_get_value ?o1 ''channels''"
    proof -
      have sc: "gst_structure_get_value s' ''channels'' = gst_structure_get_value s ''channels''"
        if "fixate_same_channels il s ol' c = Inl s'" for il s ol' c s'
        using get_value_fixate_same_channels_other [of "''channels''" il s ol' c s'] that
        by simp
      show ?thesis
        unfolding unf
        by (auto simp: get_value_fixate_other_channels_other dest: sc
            split: option.splits sum.splits)
    qed
    from get_int_cong [OF this] oc show ?thesis by simp
  qed
qed

lemma default_positions_6:
  "take (nat 6) (default_positions ! nat (6 - 1)) =
     [POSITION_FRONT_LEFT, POSITION_FRONT_RIGHT, POSITION_REAR_LEFT, POSITION_REAR_RIGHT,
      POSITION_FRONT_CENTER, POSITION_LFE]"
  by (simp add: default_positions_def eval_nat_numeral)

lemma fixate_structure_channels:
  "gst_structure_get_value (fixate_structure w0 ins outs) ''channel-positions'' =
     gst_structure_get_value (gst_audio_convert_fixate_channels ins outs) ''channel-positions''"
  "gst_structure_get_value (fixate_structure w0 ins outs) ''channels'' =
     gst_structure_get_value (gst_audio_convert_fixate_channels ins outs) ''channels''"
  unfolding fixate_structure_steps
  by (simp_all add: get_value_fixate_signed_step_other get_value_fixate_depth_step_other
      get_value_fixate_int_step_other)


text \<open>
  Claim C8, as amended. When no layout can be resolved from the candidate or from the
  input: with a fixated channel count from 3 to 8, or of 1 or 2 and a candidate that
  declares a layout field, the default layout of the table for that count is adopted
  (for 6: front-left, front-right, rear-left, rear-right, front-center, lfe); with a
  fixated count of at most 2 and a candidate without a layout field no layout is set;
  with a fixated count above 8 the layout field stays as the candidate had it. The
  function returns a structure in every case.
\<close>

theorem default_layout_fallback:
  assumes "gst_caps_is_fixed caps"
    and "gst_structure_get_int (hd caps) ''channels'' = Some ic"
    and "gst_structure_has_field outs ''channels''"
    and "gst_structure_get_int
           (gst_structure_fixate_field_nearest_int outs ''channels'' ic) ''channels'' = Some oc"
    and "layout_unresolved (hd caps) outs ic oc"
  shows "gst_structure_get_int
           (hd (gst_audio_convert_fixate_caps w0 caps (outs # rest))) ''channels'' = Some oc \<and>
         (gst_structure_get_value outs ''channel-positions'' = None \<and> oc \<le> 2 \<longrightarrow>
            gst_structure_get_value
              (hd (gst_audio_convert_fixate_caps w0 caps (outs # rest))) ''channel-positions'' =
              None) \<and>
         (\<not> (gst_structure_get_value outs ''channel-positions'' = None \<and> oc \<le> 2) \<and>
          1 \<le> oc \<and> oc \<le> 8 \<longrightarrow>
            gst_structure_get_value
              (hd (gst_audio_convert_fixate_caps w0 caps (outs # rest))) ''channel-positions'' =
              Some (VArray (take (nat oc) (default_positions ! nat (oc - 1))))) \<and>
         (oc = 6 \<longrightarrow>
            gst_structure_get_value
              (hd (gst_audio_convert_fixate_caps w0 caps (outs # rest))) ''channel-positions'' =
              Some (VArray [POSITION_FRONT_LEFT, POSITION_FRONT_RIGHT, POSITION_REAR_LEFT,
                            POSITION_REAR_RIGHT, POSITION_FRONT_CENTER, POSITION_LFE])) \<and>
         (8 < oc \<longrightarrow>
            gst_structure_get_value
              (hd (gst_audio_convert_fixate_caps w0 caps (outs # rest))) ''channel-positions'' =
              gst_structure_get_value outs ''channel-positions'')"
proof -
  let ?r = "hd (gst_audio_convert_fixate_caps w0 caps (outs # rest))"
  note u = fixate_channels_unresolved [OF assms(2-5)]
  have cp: "gst_structure_get_value ?r ''channel-positions'' =
            (if gst_structure_get_value outs ''channel-positions'' = None \<and> oc \<le> 2 then None
             else if 0 < oc \<and> oc \<le> 8
             then Some (VArray (take (nat oc) (default_positions ! nat (oc - 1))))
             else gst_structure_get_value outs ''channel-positions'')"
    by (simp only: fixate_caps_single [OF assms(1)] list.sel fixate_structure_channels u(1))
  have "gst_structure_get_value ?r ''channels'' =
        gst_structure_get_value (gst_audio_convert_fixate_channels (hd caps) outs) ''channels''"
    by (simp only: fixate_caps_single [OF assms(1)] list.sel fixate_structure_channels)
  from get_int_cong [OF this] u(2)
  have ch: "gst_structure_get_int ?r ''channels'' = Some oc" by simp
  have six: "oc = 6 \<longrightarrow> gst_structure_get_value ?r ''channel-positions'' =
              Some (VArray [POSITION_FRONT_LEFT, POSITION_FRONT_RIGHT, POSITION_REAR_LEFT,
                            POSITION_REAR_RIGHT, POSITION_FRONT_CENTER, POSITION_LFE])"
    using default_positions_6 by (simp add: cp)
  show ?thesis
    using ch six by (simp add: cp)
qed

lemma ex_int_caps_has_channels:
  "gst_structure_has_field (hd (ex_int_caps w d c)) ''channels''"
  "gst_structure_fixate_field_nearest_int (hd (ex_int_caps w d c)) ''channels'' t =
     hd (ex_int_caps w d c)"
  by (simp_all add: gst_structure_has_field_def gst_structure_fixate_field_nearest_int_def
      gst_structure_get_value_def ex_int_caps_def)

theorem default_layout_fallback_witness:
  "gst_structure_get_int
     (hd (gst_audio_convert_fixate_caps 0 (ex_int_caps 16 16 2) [hd (ex_int_caps 16 16 6)]))
     ''channels'' = Some 6 \<and>
   gst_structure_get_value
     (hd (gst_audio_convert_fixate_caps 0 (ex_int_caps 16 16 2) [hd (ex_int_caps 16 16 6)]))
     ''channel-positions'' =
     Some (VArray [POSITION_FRONT_LEFT, POSITION_FRONT_RIGHT, POSITION_REAR_LEFT,
                   POSITION_REAR_RIGHT, POSITION_FRONT_CENTER, POSITION_LFE])"
  using default_layout_fallback [of "ex_int_caps 16 16 2" 2 "hd (ex_int_caps 16 16 6)" 6 0 "[]"]
    default_positions_6
  by (simp add: ex_int_caps_get ex_int_caps_has_channels layout_unresolved_def)

theorem default_layout_two_channels_counterexample:
  "gst_caps_is_fixed (ex_int_caps 16 16 2) \<and>
   layout_unresolved (hd (ex_int_caps 16 16 2)) (hd (ex_int_caps 16 16 2)) 2 2 \<and>
   gst_structure_get_int
     (hd (gst_audio_convert_fixate_caps 0 (ex_int_caps 16 16 2) (ex_int_caps 16 16 2)))
     ''channels'' = Some 2 \<and>
   take (nat 2) (default_positions ! nat (2 - 1)) = [POSITION_FRONT_LEFT, POSITION_FRONT_RIGHT] \<and>
   gst_structure_get_value
     (hd (gst_audio_convert_fixate_caps 0 (ex_int_caps 16 16 2) (ex_int_caps 16 16 2)))
     ''channel-positions'' = None"
proof -
  have r: "gst_audio_convert_fixate_caps 0 (ex_int_caps 16 16 2) (ex_int_caps 16 16 2) =
           [hd (ex_int_caps 16 16 2)]"
    by (simp add: fixate_caps_self ex_int_caps_get)
  have d: "take (nat 2) (default_positions ! nat (2 - 1)) =
           [POSITION_FRONT_LEFT, POSITION_FRONT_RIGHT]"
    by (simp add: default_positions_def eval_nat_numeral)
  show ?thesis
    unfolding r using d
    by (simp add: ex_int_caps_get layout_unresolved_def)
qed

end
